theory Spec2Isabelle
  imports Main "HOL-Library.Multiset" "HOL-Library.Word"
begin

section \<open>Strings, character classes and the patterns of the input schemas\<close>

text \<open>
  A text is a \<^typ>\<open>string\<close>: one \<^typ>\<open>char\<close> per code unit, the \<^typ>\<open>char\<close> with code
  \<open>k\<close> standing for the code unit \<open>k\<close>, so that the texts of the model are those
  whose code units lie below 256 (ASCII and the Latin-1 supplement). The length of a text
  is its number of code units, which for these texts is also its number of characters.
\<close>

definition isDigit :: "char \<Rightarrow> bool" where
  "isDigit c \<longleftrightarrow> 48 \<le> (of_char c :: nat) \<and> (of_char c :: nat) \<le> 57"

definition isHex :: "char \<Rightarrow> bool" where
  "isHex c \<longleftrightarrow> isDigit c
     \<or> (97 \<le> (of_char c :: nat) \<and> (of_char c :: nat) \<le> 102)
     \<or> (65 \<le> (of_char c :: nat) \<and> (of_char c :: nat) \<le> 70)"

text \<open>
  \<open>String.prototype.toUpperCase\<close>, code unit by code unit: the letters a to z and the
  lower-case letters U+00E0 to U+00FE (without the division sign U+00F7) move down by 32,
  and the sharp s U+00DF becomes \<open>SS\<close>; every other code unit below 256 stays, except
  the micro sign U+00B5 and y with diaeresis U+00FF, whose upper-case forms (U+039C,
  U+0178) lie outside the texts of the model: \<open>upper_representable\<close> holds of a text
  that contains neither.
\<close>

definition toUpperChars :: "char \<Rightarrow> string" where
  "toUpperChars c =
     (let k = (of_char c :: nat)
      in if 97 \<le> k \<and> k \<le> 122 then [char_of (k - 32)]
         else if k = 223 then ''SS''
         else if 224 \<le> k \<and> k \<le> 254 \<and> k \<noteq> 247 then [char_of (k - 32)]
         else [c])"

definition toUpperCase :: "string \<Rightarrow> string" where
  "toUpperCase s = concat (map toUpperChars s)"

definition upper_representable :: "string \<Rightarrow> bool" where
  "upper_representable s \<longleftrightarrow>
     (\<forall>c \<in> set s. (of_char c :: nat) \<noteq> 181 \<and> (of_char c :: nat) \<noteq> 255)"

text \<open>
  A pattern is run as a backtracking matcher: applied to a text it returns every remainder
  that is left after the pattern has matched a prefix. A pattern anchored with \<open>^\<close> and
  \<open>$\<close> accepts the text when one of the remainders is empty.
\<close>

type_synonym matcher = "string \<Rightarrow> string list"

definition rx_class :: "(char \<Rightarrow> bool) \<Rightarrow> matcher" where
  "rx_class P s = (case s of [] \<Rightarrow> [] | c # cs \<Rightarrow> if P c then [cs] else [])"

definition rx_lit :: "char \<Rightarrow> matcher" where
  "rx_lit a = rx_class (\<lambda>c. c = a)"

definition rx_seq :: "matcher \<Rightarrow> matcher \<Rightarrow> matcher" where
  "rx_seq p q s = concat (map q (p s))"

definition rx_alt :: "matcher \<Rightarrow> matcher \<Rightarrow> matcher" where
  "rx_alt p q s = p s @ q s"

definition rx_opt :: "matcher \<Rightarrow> matcher" where
  "rx_opt p s = p s @ [s]"

primrec rx_rep :: "nat \<Rightarrow> matcher \<Rightarrow> matcher" where
  "rx_rep 0 p s = [s]"
| "rx_rep (Suc n) p s = concat (map (rx_rep n p) (p s))"

definition rx_text :: "string \<Rightarrow> matcher" where
  "rx_text t s = (if take (length t) s = t then [drop (length t) s] else [])"

definition rx_test :: "matcher \<Rightarrow> string \<Rightarrow> bool" where
  "rx_test p s \<longleftrightarrow> [] \<in> set (p s)"

text \<open>\<open>/^\d{5}(-\d{4})?$/\<close>, the pattern of \<open>zipCode\<close>.\<close>

definition zipCodeRegex :: "string \<Rightarrow> bool" where
  "zipCodeRegex =
     rx_test (rx_seq (rx_rep 5 (rx_class isDigit))
                     (rx_opt (rx_seq (rx_lit CHR ''-'') (rx_rep 4 (rx_class isDigit)))))"

text \<open>\<open>/^\d{6}$/\<close>, the pattern of \<open>naicsCode\<close>.\<close>

definition naicsCodeRegex :: "string \<Rightarrow> bool" where
  "naicsCodeRegex = rx_test (rx_rep 6 (rx_class isDigit))"

text \<open>
  \<open>z.string().uuid()\<close>: the check belongs to the validation library (zod 4), whose
  pattern is five groups of 8, 4, 4, 4 and 12 hexadecimal digits joined by hyphens, with a
  version digit 1 to 8 and a variant digit 8, 9, a or b, or the all-zero or the all-f
  identifier.
\<close>

definition isUuid :: "string \<Rightarrow> bool" where
  "isUuid =
     rx_test
       (rx_alt
         (rx_seq (rx_rep 8 (rx_class isHex))
         (rx_seq (rx_lit CHR ''-'')
         (rx_seq (rx_rep 4 (rx_class isHex))
         (rx_seq (rx_lit CHR ''-'')
         (rx_seq (rx_class (\<lambda>c. c \<in> set ''12345678''))
         (rx_seq (rx_rep 3 (rx_class isHex))
         (rx_seq (rx_lit CHR ''-'')
         (rx_seq (rx_class (\<lambda>c. c \<in> set ''89abAB''))
         (rx_seq (rx_rep 3 (rx_class isHex))
         (rx_seq (rx_lit CHR ''-'')
                 (rx_rep 12 (rx_class isHex))))))))))))
         (rx_alt (rx_text ''00000000-0000-0000-0000-000000000000'')
                 (rx_text ''ffffffff-ffff-ffff-ffff-ffffffffffff'')))"

section \<open>The tables of \<open>schema.ts\<close>\<close>

text \<open>
  A column of type \<open>uuid\<close> holds a value of 128 bits, and two identifiers are equal
  when their values are. The store reads the text of an identifier as hexadecimal digits,
  upper or lower case, between the hyphens.
\<close>

type_synonym uuid = "128 word"

definition hexValue :: "char \<Rightarrow> nat" where
  "hexValue c =
     (let k = (of_char c :: nat)
      in if 48 \<le> k \<and> k \<le> 57 then k - 48
         else if 97 \<le> k \<and> k \<le> 102 then k - 87
         else if 65 \<le> k \<and> k \<le> 70 then k - 55
         else 0)"

definition uuid_of_text :: "string \<Rightarrow> uuid" where
  "uuid_of_text s =
     foldl (\<lambda>a c. 16 * a + of_nat (hexValue c)) 0 (filter (\<lambda>c. c \<noteq> CHR ''-'') s)"

type_synonym timestamp = int

record establishment =
  e_id :: uuid
  userId :: string
  name :: string
  address :: string
  city :: string
  state :: string
  zipCode :: string
  naicsCode :: "string option"
  industryDescription :: "string option"
  averageEmployees :: int
  createdAt :: timestamp
  updatedAt :: timestamp

record subscription =
  s_id :: uuid
  establishmentId :: uuid
  year :: int
  clerkSubscriptionId :: string
  status :: string
  s_createdAt :: timestamp
  s_updatedAt :: timestamp

text \<open>
  The relational store holds the two tables, each a list of rows in storage order. A
  statement that writes is refused by the store (\<open>None\<close> stands for the exception the
  driver raises) when a value does not fit its column: a text that contains the code unit
  0, a text longer than the width of its \<open>varchar\<close> unless all that exceeds the width
  is spaces, an \<open>integer\<close> outside 32 bits. A text that fits is stored cut to the width
  of its column (which changes it only when trailing spaces exceed the width). Connection
  failures are not modelled.
\<close>

record store =
  establishments :: "establishment list"
  subscriptions :: "subscription list"

definition fits_varchar :: "nat \<Rightarrow> string \<Rightarrow> bool" where
  "fits_varchar n s \<longleftrightarrow> CHR 0x00 \<notin> set s \<and> (\<forall>c \<in> set (drop n s). c = CHR '' '')"

definition fits_integer :: "int \<Rightarrow> bool" where
  "fits_integer k \<longleftrightarrow> - 2147483648 \<le> k \<and> k \<le> 2147483647"

text \<open>The widths of the columns of \<open>establishments\<close>.\<close>

definition fits_columns :: "establishment \<Rightarrow> bool" where
  "fits_columns e \<longleftrightarrow>
     fits_varchar 255 (userId e) \<and> fits_varchar 255 (name e) \<and> fits_varchar 500 (address e)
     \<and> fits_varchar 100 (city e) \<and> fits_varchar 2 (state e) \<and> fits_varchar 10 (zipCode e)
     \<and> (case naicsCode e of None \<Rightarrow> True | Some s \<Rightarrow> fits_varchar 6 s)
     \<and> (case industryDescription e of None \<Rightarrow> True | Some s \<Rightarrow> fits_varchar 500 s)
     \<and> fits_integer (averageEmployees e)"

text \<open>A row as the columns hold it.\<close>

definition as_stored :: "establishment \<Rightarrow> establishment" where
  "as_stored e =
     e\<lparr>userId := take 255 (userId e), name := take 255 (name e),
       address := take 500 (address e), city := take 100 (city e),
       state := take 2 (state e), zipCode := take 10 (zipCode e),
       naicsCode := map_option (take 6) (naicsCode e),
       industryDescription := map_option (take 500) (industryDescription e)\<rparr>"

text \<open>
  \<open>db.insert(establishments).values(row).returning()\<close>: the row is appended and
  returned as stored, unless it repeats a primary key or does not fit the columns.
\<close>

definition db_insert :: "store \<Rightarrow> establishment \<Rightarrow> (establishment list \<times> store) option" where
  "db_insert st row =
     (if e_id row \<in> set (map e_id (establishments st)) \<or> \<not> fits_columns row then None
      else Some ([as_stored row],
                 st\<lparr>establishments := establishments st @ [as_stored row]\<rparr>))"

text \<open>
  \<open>db.delete(establishments).where(eq(establishments.id, i))\<close>: the rows with the
  identifier are removed, and with them, by the foreign key
  \<open>subscriptions_establishment_fk\<close> declared \<open>onDelete("cascade")\<close>, every subscription
  that refers to the identifier.
\<close>

definition db_delete :: "store \<Rightarrow> uuid \<Rightarrow> store" where
  "db_delete st i =
     st\<lparr>establishments := filter (\<lambda>e. e_id e \<noteq> i) (establishments st),
        subscriptions := filter (\<lambda>s. establishmentId s \<noteq> i) (subscriptions st)\<rparr>"

text \<open>
  \<open>select().from(establishments).where(eq(userId, u)).orderBy(createdAt)\<close>: the rows
  of the owner in ascending order of creation (rows with equal timestamps stay in storage
  order).
\<close>

definition db_select_by_owner :: "store \<Rightarrow> string \<Rightarrow> establishment list" where
  "db_select_by_owner st u =
     sort_key createdAt (filter (\<lambda>e. userId e = u) (establishments st))"

text \<open>\<open>select().from(establishments).where(and(eq(id, i), eq(userId, u))).limit(1)\<close>.\<close>

definition db_select_owned :: "store \<Rightarrow> uuid \<Rightarrow> string \<Rightarrow> establishment list" where
  "db_select_owned st i u =
     take 1 (filter (\<lambda>e. e_id e = i \<and> userId e = u) (establishments st))"

section \<open>Request context and errors (\<open>trpc.ts\<close>)\<close>

text \<open>
  The four error kinds a procedure can answer with. A validation failure carries the paths
  of the offending fields, an internal failure the generic message of the procedure.
\<close>

datatype trpc_error =
    UNAUTHORIZED
  | NOT_FOUND
  | BAD_REQUEST "string list"
  | INTERNAL_SERVER_ERROR string

record clerk_user =
  clerk_id :: string

record ctx =
  ctx_userId :: "string option"
  ctx_user :: "clerk_user option"

text \<open>\<open>createTRPCContext\<close>: \<open>userId: user?.id ?? null, user: user ?? null\<close>.\<close>

definition createTRPCContext :: "clerk_user option \<Rightarrow> ctx" where
  "createTRPCContext u = \<lparr>ctx_userId = map_option clerk_id u, ctx_user = u\<rparr>"

text \<open>
  \<open>protectedProcedure\<close>: \<open>if (!ctx.userId || !ctx.user) throw UNAUTHORIZED\<close>; an empty
  identifier is falsy. The middleware runs before the input of the procedure is parsed.
\<close>

definition protectedProcedure :: "ctx \<Rightarrow> trpc_error + string" where
  "protectedProcedure c =
     (case ctx_userId c of
        None \<Rightarrow> Inl UNAUTHORIZED
      | Some u \<Rightarrow> if u = [] \<or> ctx_user c = None then Inl UNAUTHORIZED else Inr u)"

section \<open>Input schemas (\<open>establishmentRouter.ts\<close>)\<close>

text \<open>
  The payload of a request as it arrives: a field that is absent is \<open>None\<close>. The same
  shape serves \<open>create\<close> (where the schema requires the first five fields and the
  last) and the partial payload of \<open>update\<close>.
\<close>

record establishment_input =
  name_in :: "string option"
  address_in :: "string option"
  city_in :: "string option"
  state_in :: "string option"
  zipCode_in :: "string option"
  naicsCode_in :: "string option"
  industryDescription_in :: "string option"
  averageEmployees_in :: "int option"

text \<open>The checks of the eight fields, in the order of \<open>establishmentInputSchema\<close>.\<close>

definition name_check :: "string \<Rightarrow> bool" where
  "name_check s \<longleftrightarrow> 1 \<le> length s \<and> length s \<le> 255"

definition address_check :: "string \<Rightarrow> bool" where
  "address_check s \<longleftrightarrow> 1 \<le> length s \<and> length s \<le> 500"

definition city_check :: "string \<Rightarrow> bool" where
  "city_check s \<longleftrightarrow> 1 \<le> length s \<and> length s \<le> 100"

definition state_check :: "string \<Rightarrow> bool" where
  "state_check s \<longleftrightarrow> length s = 2"

definition zipCode_check :: "string \<Rightarrow> bool" where
  "zipCode_check s \<longleftrightarrow> zipCodeRegex s \<and> length s \<le> 10"

definition naicsCode_check :: "string \<Rightarrow> bool" where
  "naicsCode_check s \<longleftrightarrow> naicsCodeRegex s"

definition industryDescription_check :: "string \<Rightarrow> bool" where
  "industryDescription_check s \<longleftrightarrow> length s \<le> 500"

text \<open>
  \<open>z.number().int().min(0)\<close>: \<open>.int()\<close> of the validation library admits the safe
  integers only, so the number is at most \<open>2^53 - 1\<close>.
\<close>

definition averageEmployees_check :: "int \<Rightarrow> bool" where
  "averageEmployees_check n \<longleftrightarrow> 0 \<le> n \<and> n \<le> 9007199254740991"

text \<open>A required field reports its path when it is absent or fails its check.\<close>

definition required :: "('a \<Rightarrow> bool) \<Rightarrow> string \<Rightarrow> 'a option \<Rightarrow> string list" where
  "required chk path v =
     (case v of None \<Rightarrow> [path] | Some x \<Rightarrow> if chk x then [] else [path])"

text \<open>An optional field reports its path only when it is present and fails its check.\<close>

definition optional :: "('a \<Rightarrow> bool) \<Rightarrow> string \<Rightarrow> 'a option \<Rightarrow> string list" where
  "optional chk path v =
     (case v of None \<Rightarrow> [] | Some x \<Rightarrow> if chk x then [] else [path])"

definition establishmentInputSchema_issues :: "establishment_input \<Rightarrow> string list" where
  "establishmentInputSchema_issues inp =
     required name_check ''name'' (name_in inp)
     @ required address_check ''address'' (address_in inp)
     @ required city_check ''city'' (city_in inp)
     @ required state_check ''state'' (state_in inp)
     @ required zipCode_check ''zipCode'' (zipCode_in inp)
     @ optional naicsCode_check ''naicsCode'' (naicsCode_in inp)
     @ optional industryDescription_check ''industryDescription'' (industryDescription_in inp)
     @ required averageEmployees_check ''averageEmployees'' (averageEmployees_in inp)"

text \<open>\<open>establishmentInputSchema.partial()\<close>: every field becomes optional.\<close>

definition establishmentInputSchema_partial_issues :: "establishment_input \<Rightarrow> string list" where
  "establishmentInputSchema_partial_issues inp =
     optional name_check ''name'' (name_in inp)
     @ optional address_check ''address'' (address_in inp)
     @ optional city_check ''city'' (city_in inp)
     @ optional state_check ''state'' (state_in inp)
     @ optional zipCode_check ''zipCode'' (zipCode_in inp)
     @ optional naicsCode_check ''naicsCode'' (naicsCode_in inp)
     @ optional industryDescription_check ''industryDescription'' (industryDescription_in inp)
     @ optional averageEmployees_check ''averageEmployees'' (averageEmployees_in inp)"

text \<open>The value a schema hands to the procedure: \<open>state\<close> has gone through \<open>.toUpperCase()\<close>.\<close>

definition normalize_input :: "establishment_input \<Rightarrow> establishment_input" where
  "normalize_input inp = inp\<lparr>state_in := map_option toUpperCase (state_in inp)\<rparr>"

text \<open>The parsed input of \<open>create\<close>: the required fields are there.\<close>

record establishment_values =
  v_name :: string
  v_address :: string
  v_city :: string
  v_state :: string
  v_zipCode :: string
  v_naicsCode :: "string option"
  v_industryDescription :: "string option"
  v_averageEmployees :: int

definition establishmentInputSchema :: "establishment_input \<Rightarrow> string list + establishment_values" where
  "establishmentInputSchema inp =
     (case (name_in inp, address_in inp, city_in inp, state_in inp, zipCode_in inp,
            averageEmployees_in inp) of
        (Some n, Some a, Some c, Some s, Some z, Some k) \<Rightarrow>
          if establishmentInputSchema_issues inp = []
          then Inr \<lparr>v_name = n, v_address = a, v_city = c, v_state = toUpperCase s,
                    v_zipCode = z, v_naicsCode = naicsCode_in inp,
                    v_industryDescription = industryDescription_in inp,
                    v_averageEmployees = k\<rparr>
          else Inl (establishmentInputSchema_issues inp)
      | _ \<Rightarrow> Inl (establishmentInputSchema_issues inp))"

text \<open>\<open>z.object({ id: z.string().uuid(...) })\<close>.\<close>

definition idSchema :: "string \<Rightarrow> string list + string" where
  "idSchema i = (if isUuid i then Inr i else Inl [''id''])"

text \<open>\<open>z.object({ id: z.string().uuid(...), data: establishmentInputSchema.partial() })\<close>.\<close>

definition updateSchema :: "string \<Rightarrow> establishment_input \<Rightarrow> string list + (string \<times> establishment_input)" where
  "updateSchema i d =
     (let issues = (if isUuid i then [] else [''id''])
                   @ map (\<lambda>p. ''data.'' @ p) (establishmentInputSchema_partial_issues d)
      in if issues = [] then Inr (i, normalize_input d) else Inl issues)"

section \<open>The procedures of \<open>establishmentRouter\<close>\<close>

text \<open>
  What a request takes from its surroundings: the identifier the store draws for a new
  row (\<open>defaultRandom()\<close>), the clock of the store (\<open>defaultNow()\<close>) and the clock of
  the server (\<open>new Date()\<close>). The breadcrumbs and exception reports sent to the
  telemetry sink do not influence a result and are left out.
\<close>

record environment =
  gen_random_uuid :: uuid
  db_now :: timestamp
  new_Date :: timestamp

text \<open>\<open>x || null\<close> on an optional text: absent and empty both become \<open>null\<close>.\<close>

definition or_null :: "string option \<Rightarrow> string option" where
  "or_null x = (case x of None \<Rightarrow> None | Some s \<Rightarrow> if s = [] then None else Some s)"

text \<open>\<open>list\<close>: the establishments of the caller, ordered by \<open>createdAt\<close>.\<close>

definition establishmentRouter_list :: "ctx \<Rightarrow> store \<Rightarrow> trpc_error + establishment list" where
  "establishmentRouter_list c st =
     (case protectedProcedure c of
        Inl err \<Rightarrow> Inl err
      | Inr u \<Rightarrow> Inr (db_select_by_owner st u))"

text \<open>\<open>getById\<close>: the row with the identifier, if the caller owns it.\<close>

definition establishmentRouter_getById :: "ctx \<Rightarrow> store \<Rightarrow> string \<Rightarrow> trpc_error + establishment" where
  "establishmentRouter_getById c st i =
     (case protectedProcedure c of
        Inl err \<Rightarrow> Inl err
      | Inr u \<Rightarrow>
          (case idSchema i of
             Inl issues \<Rightarrow> Inl (BAD_REQUEST issues)
           | Inr i' \<Rightarrow>
               (case db_select_owned st (uuid_of_text i') u of
                  [] \<Rightarrow> Inl NOT_FOUND
                | r # _ \<Rightarrow> Inr r)))"

text \<open>The row \<open>create\<close> hands to the store, with the defaults of the table filled in.\<close>

definition new_row :: "environment \<Rightarrow> string \<Rightarrow> establishment_values \<Rightarrow> establishment" where
  "new_row env u v =
     \<lparr>e_id = gen_random_uuid env,
      userId = u,
      name = v_name v,
      address = v_address v,
      city = v_city v,
      state = v_state v,
      zipCode = v_zipCode v,
      naicsCode = or_null (v_naicsCode v),
      industryDescription = or_null (v_industryDescription v),
      averageEmployees = v_averageEmployees v,
      createdAt = db_now env,
      updatedAt = new_Date env\<rparr>"

text \<open>
  \<open>create\<close>: an exception of the store and an empty \<open>returning()\<close> both end in the
  generic internal error of the \<open>catch\<close> block.
\<close>

definition establishmentRouter_create :: "ctx \<Rightarrow> environment \<Rightarrow> store \<Rightarrow> establishment_input
    \<Rightarrow> (trpc_error + establishment) \<times> store" where
  "establishmentRouter_create c env st inp =
     (case protectedProcedure c of
        Inl err \<Rightarrow> (Inl err, st)
      | Inr u \<Rightarrow>
          (case establishmentInputSchema inp of
             Inl issues \<Rightarrow> (Inl (BAD_REQUEST issues), st)
           | Inr v \<Rightarrow>
               (case db_insert st (new_row env u v) of
                  None \<Rightarrow> (Inl (INTERNAL_SERVER_ERROR ''Failed to create establishment''), st)
                | Some (result, st') \<Rightarrow>
                    (case result of
                       [] \<Rightarrow> (Inl (INTERNAL_SERVER_ERROR ''Failed to create establishment''), st')
                     | r # _ \<Rightarrow> (Inr r, st')))))"

text \<open>\<open>.set({ ...input.data, updatedAt: new Date() })\<close>: the fields present replace the stored ones.\<close>

definition set_fields :: "establishment_input \<Rightarrow> timestamp \<Rightarrow> establishment \<Rightarrow> establishment" where
  "set_fields d now e =
     e\<lparr>name := (case name_in d of Some x \<Rightarrow> x | None \<Rightarrow> name e),
       address := (case address_in d of Some x \<Rightarrow> x | None \<Rightarrow> address e),
       city := (case city_in d of Some x \<Rightarrow> x | None \<Rightarrow> city e),
       state := (case state_in d of Some x \<Rightarrow> x | None \<Rightarrow> state e),
       zipCode := (case zipCode_in d of Some x \<Rightarrow> x | None \<Rightarrow> zipCode e),
       naicsCode := (case naicsCode_in d of Some x \<Rightarrow> Some x | None \<Rightarrow> naicsCode e),
       industryDescription :=
         (case industryDescription_in d of Some x \<Rightarrow> Some x | None \<Rightarrow> industryDescription e),
       averageEmployees := (case averageEmployees_in d of Some x \<Rightarrow> x | None \<Rightarrow> averageEmployees e),
       updatedAt := now\<rparr>"

text \<open>The values of a payload fit the columns they are written to.\<close>

definition fits_values :: "establishment_input \<Rightarrow> bool" where
  "fits_values d \<longleftrightarrow>
     (case name_in d of None \<Rightarrow> True | Some s \<Rightarrow> fits_varchar 255 s)
     \<and> (case address_in d of None \<Rightarrow> True | Some s \<Rightarrow> fits_varchar 500 s)
     \<and> (case city_in d of None \<Rightarrow> True | Some s \<Rightarrow> fits_varchar 100 s)
     \<and> (case state_in d of None \<Rightarrow> True | Some s \<Rightarrow> fits_varchar 2 s)
     \<and> (case zipCode_in d of None \<Rightarrow> True | Some s \<Rightarrow> fits_varchar 10 s)
     \<and> (case naicsCode_in d of None \<Rightarrow> True | Some s \<Rightarrow> fits_varchar 6 s)
     \<and> (case industryDescription_in d of None \<Rightarrow> True | Some s \<Rightarrow> fits_varchar 500 s)
     \<and> (case averageEmployees_in d of None \<Rightarrow> True | Some k \<Rightarrow> fits_integer k)"

text \<open>The values of a payload as the columns hold them.\<close>

definition stored_values :: "establishment_input \<Rightarrow> establishment_input" where
  "stored_values d =
     d\<lparr>name_in := map_option (take 255) (name_in d),
       address_in := map_option (take 500) (address_in d),
       city_in := map_option (take 100) (city_in d),
       state_in := map_option (take 2) (state_in d),
       zipCode_in := map_option (take 10) (zipCode_in d),
       naicsCode_in := map_option (take 6) (naicsCode_in d),
       industryDescription_in := map_option (take 500) (industryDescription_in d)\<rparr>"

text \<open>
  \<open>db.update(establishments).set({ ...d, updatedAt: now }).where(eq(establishments.id, i))
  .returning()\<close>: every row with the identifier is replaced, and the updated rows are
  returned. In the model the statement is refused when a value of the payload does not fit
  its column, also when no row has the identifier.
\<close>

definition db_update :: "store \<Rightarrow> uuid \<Rightarrow> establishment_input \<Rightarrow> timestamp
    \<Rightarrow> (establishment list \<times> store) option" where
  "db_update st i d now =
     (if \<not> fits_values d then None
      else Some (map (set_fields (stored_values d) now)
                     (filter (\<lambda>e. e_id e = i) (establishments st)),
                 st\<lparr>establishments :=
                      map (\<lambda>e. if e_id e = i then set_fields (stored_values d) now e else e)
                          (establishments st)\<rparr>))"

text \<open>
  \<open>update\<close> issues two statements. The first is the ownership check, after the
  middleware and the input schema; it yields the parsed input or the error of the request.
\<close>

definition update_verify :: "ctx \<Rightarrow> store \<Rightarrow> string \<Rightarrow> establishment_input
    \<Rightarrow> trpc_error + (string \<times> establishment_input)" where
  "update_verify c st i d =
     (case protectedProcedure c of
        Inl err \<Rightarrow> Inl err
      | Inr u \<Rightarrow>
          (case updateSchema i d of
             Inl issues \<Rightarrow> Inl (BAD_REQUEST issues)
           | Inr (i', d') \<Rightarrow>
               if db_select_owned st (uuid_of_text i') u = [] then Inl NOT_FOUND
               else Inr (i', d')))"

text \<open>
  The second statement writes, filtered by the identifier alone, and the procedure answers
  with \<open>result[0]\<close>: the first updated row, or \<open>undefined\<close> (the inner \<open>None\<close>) when
  no row was updated. No check follows the write. The outer \<open>None\<close> is the exception of
  a refused statement.
\<close>

definition update_write :: "timestamp \<Rightarrow> store \<Rightarrow> string \<times> establishment_input
    \<Rightarrow> (establishment option \<times> store) option" where
  "update_write now st v =
     (case db_update st (uuid_of_text (fst v)) (snd v) now of
        None \<Rightarrow> None
      | Some (result, st') \<Rightarrow> Some ((case result of [] \<Rightarrow> None | r # _ \<Rightarrow> Some r), st'))"

text \<open>
  A run of \<open>update\<close> in which the statements of other requests, \<open>other\<close>, reach the store
  between the two statements: no transaction holds them together. An exception of the
  write ends in the generic internal error of the \<open>catch\<close> block.
\<close>

definition update_interleaved :: "(store \<Rightarrow> store) \<Rightarrow> ctx \<Rightarrow> timestamp \<Rightarrow> store \<Rightarrow> string
    \<Rightarrow> establishment_input \<Rightarrow> (trpc_error + establishment option) \<times> store" where
  "update_interleaved other c now st i d =
     (case update_verify c st i d of
        Inl err \<Rightarrow> (Inl err, st)
      | Inr v \<Rightarrow>
          (case update_write now (other st) v of
             None \<Rightarrow> (Inl (INTERNAL_SERVER_ERROR ''Failed to update establishment''), other st)
           | Some (r, st') \<Rightarrow> (Inr r, st')))"

text \<open>\<open>update\<close> when nothing comes between its two statements.\<close>

definition establishmentRouter_update :: "ctx \<Rightarrow> timestamp \<Rightarrow> store \<Rightarrow> string
    \<Rightarrow> establishment_input \<Rightarrow> (trpc_error + establishment option) \<times> store" where
  "establishmentRouter_update c now st i d = update_interleaved (\<lambda>s. s) c now st i d"

text \<open>\<open>delete\<close> answers \<open>{ success: true }\<close>.\<close>

record ack =
  success :: bool

definition establishmentRouter_delete :: "ctx \<Rightarrow> store \<Rightarrow> string \<Rightarrow> (trpc_error + ack) \<times> store" where
  "establishmentRouter_delete c st i =
     (case protectedProcedure c of
        Inl err \<Rightarrow> (Inl err, st)
      | Inr u \<Rightarrow>
          (case idSchema i of
             Inl issues \<Rightarrow> (Inl (BAD_REQUEST issues), st)
           | Inr i' \<Rightarrow>
               if db_select_owned st (uuid_of_text i') u = [] then (Inl NOT_FOUND, st)
               else (Inr \<lparr>success = True\<rparr>, db_delete st (uuid_of_text i'))))"

text \<open>
  \<open>US_STATE_CODES\<close>, the fifty states and DC, which the schema of the form
  (\<open>establishmentFormSchema\<close>) requires \<open>state\<close> to be one of.
\<close>

definition US_STATE_CODES :: "string list" where
  "US_STATE_CODES =
     [''AL'', ''AK'', ''AZ'', ''AR'', ''CA'', ''CO'', ''CT'', ''DE'', ''FL'', ''GA'',
      ''HI'', ''ID'', ''IL'', ''IN'', ''IA'', ''KS'', ''KY'', ''LA'', ''ME'', ''MD'',
      ''MA'', ''MI'', ''MN'', ''MS'', ''MO'', ''MT'', ''NE'', ''NV'', ''NH'', ''NJ'',
      ''NM'', ''NY'', ''NC'', ''ND'', ''OH'', ''OK'', ''OR'', ''PA'', ''RI'', ''SC'',
      ''SD'', ''TN'', ''TX'', ''UT'', ''VT'', ''VA'', ''WA'', ''WV'', ''WI'', ''WY'', ''DC'']"

section \<open>The selection state of the client (\<open>EstablishmentProvider\<close>)\<close>

text \<open>
  \<open>localStorage\<close> is a map from keys to texts. A year is a JavaScript number; the model
  holds it as an integer and is exact on the safe integers, whose decimal notation
  \<open>toString\<close> prints in full.
\<close>

type_synonym localStorage = "string \<rightharpoonup> string"

definition STORAGE_KEYS_ESTABLISHMENT_ID :: string where
  "STORAGE_KEYS_ESTABLISHMENT_ID = ''osha-selected-establishment''"

definition STORAGE_KEYS_YEAR :: string where
  "STORAGE_KEYS_YEAR = ''osha-selected-year''"

definition isSafeInteger :: "int \<Rightarrow> bool" where
  "isSafeInteger y \<longleftrightarrow> - (2 ^ 53 - 1) \<le> y \<and> y \<le> 2 ^ 53 - 1"

definition digitChar :: "nat \<Rightarrow> char" where
  "digitChar k = char_of (48 + k)"

definition digitValue :: "char \<Rightarrow> nat" where
  "digitValue c = (of_char c :: nat) - 48"

fun decimal :: "nat \<Rightarrow> string" where
  "decimal n = (if n < 10 then [digitChar n] else decimal (n div 10) @ [digitChar (n mod 10)])"

declare decimal.simps [simp del]

text \<open>\<open>Number.prototype.toString()\<close> on an integer.\<close>

definition numberToString :: "int \<Rightarrow> string" where
  "numberToString y = (if y < 0 then CHR ''-'' # decimal (nat (- y)) else decimal (nat y))"

text \<open>
  The white space \<open>parseInt\<close> skips, among the code units below 256: tab, line feed,
  vertical tab, form feed, carriage return, space and the no-break space U+00A0.
\<close>

definition isWhiteSpace :: "char \<Rightarrow> bool" where
  "isWhiteSpace c \<longleftrightarrow> (of_char c :: nat) \<in> {9, 10, 11, 12, 13, 32, 160}"

definition digitsValue :: "string \<Rightarrow> nat" where
  "digitsValue ds = foldl (\<lambda>a c. 10 * a + digitValue c) 0 ds"

text \<open>
  \<open>parseInt(s, 10)\<close>: leading white space is skipped, a sign is read, and the longest
  run of digits that follows is the number; with no digit there the result is \<open>NaN\<close>
  (\<open>None\<close>). Whether the result is \<open>NaN\<close> is exact for every text; the number is exact
  when it is a safe integer (beyond, the code rounds to the nearest double).
\<close>

definition parseInt :: "string \<Rightarrow> int option" where
  "parseInt s =
     (let t = dropWhile isWhiteSpace s;
          neg = (case t of c # _ \<Rightarrow> c = CHR ''-'' | [] \<Rightarrow> False);
          r = (case t of c # cs \<Rightarrow> if c = CHR ''-'' \<or> c = CHR ''+'' then cs else t | [] \<Rightarrow> t);
          ds = takeWhile isDigit r
      in if ds = [] then None
         else Some (if neg then - int (digitsValue ds) else int (digitsValue ds)))"

record selection =
  sel_establishmentId :: "string option"
  sel_year :: int
  isHydrated :: bool

text \<open>The state of the provider when it mounts: no establishment, the current year, not hydrated.\<close>

definition initial_selection :: "int \<Rightarrow> selection" where
  "initial_selection currentYear =
     \<lparr>sel_establishmentId = None, sel_year = currentYear, isHydrated = False\<rparr>"

text \<open>The hydration effect: saved values that are present, non-empty and, for the year, numeric are taken.\<close>

definition hydrate :: "localStorage \<Rightarrow> selection \<Rightarrow> selection" where
  "hydrate ls s =
     (let s1 = (case ls STORAGE_KEYS_ESTABLISHMENT_ID of
                  Some saved \<Rightarrow> if saved \<noteq> [] then s\<lparr>sel_establishmentId := Some saved\<rparr> else s
                | None \<Rightarrow> s);
          s2 = (case ls STORAGE_KEYS_YEAR of
                  Some saved \<Rightarrow>
                    if saved \<noteq> []
                    then (case parseInt saved of Some y \<Rightarrow> s1\<lparr>sel_year := y\<rparr> | None \<Rightarrow> s1)
                    else s1
                | None \<Rightarrow> s1)
      in s2\<lparr>isHydrated := True\<rparr>)"

definition setEstablishmentId :: "string option \<Rightarrow> selection \<times> localStorage \<Rightarrow> selection \<times> localStorage" where
  "setEstablishmentId i p =
     (case p of (s, ls) \<Rightarrow>
        (s\<lparr>sel_establishmentId := i\<rparr>,
         (case i of
            Some v \<Rightarrow> if v \<noteq> [] then ls(STORAGE_KEYS_ESTABLISHMENT_ID \<mapsto> v)
                      else ls(STORAGE_KEYS_ESTABLISHMENT_ID := None)
          | None \<Rightarrow> ls(STORAGE_KEYS_ESTABLISHMENT_ID := None))))"

definition setYear :: "int \<Rightarrow> selection \<times> localStorage \<Rightarrow> selection \<times> localStorage" where
  "setYear newYear p =
     (case p of (s, ls) \<Rightarrow>
        (s\<lparr>sel_year := newYear\<rparr>, ls(STORAGE_KEYS_YEAR \<mapsto> numberToString newYear)))"

text \<open>A page load: the provider mounts in the current year and hydrates from what was persisted.\<close>

definition reload :: "int \<Rightarrow> localStorage \<Rightarrow> selection" where
  "reload currentYear ls = hydrate ls (initial_selection currentYear)"

section \<open>Sample data\<close>

text \<open>
  Two users and a store of three establishments, two of the first user (kept in the
  store out of their order of creation) and one of the second, with one subscription for
  an establishment of each.
\<close>

definition user_U :: clerk_user where
  "user_U = \<lparr>clerk_id = ''user_U''\<rparr>"

definition user_V :: clerk_user where
  "user_V = \<lparr>clerk_id = ''user_V''\<rparr>"

definition ctx_U :: ctx where
  "ctx_U = createTRPCContext (Some user_U)"

definition ctx_V :: ctx where
  "ctx_V = createTRPCContext (Some user_V)"

text \<open>The texts of the identifiers, the second also as a client may write it in upper case.\<close>

definition id_A :: string where
  "id_A = ''11111111-1111-4111-8111-111111111111''"

definition id_B :: string where
  "id_B = ''abcdefab-cdef-4abc-8def-abcdefabcdef''"

definition id_B_upper :: string where
  "id_B_upper = ''ABCDEFAB-CDEF-4ABC-8DEF-ABCDEFABCDEF''"

definition est_A :: establishment where
  "est_A = \<lparr>e_id = 0x11111111111141118111111111111111, userId = ''user_U'',
     name = ''Plant A'', address = ''1 Main St'', city = ''Fresno'', state = ''CA'',
     zipCode = ''93650'', naicsCode = Some ''332710'', industryDescription = None,
     averageEmployees = 12, createdAt = 200, updatedAt = 200\<rparr>"

definition est_B :: establishment where
  "est_B = \<lparr>e_id = 0xabcdefabcdef4abc8defabcdefabcdef, userId = ''user_V'',
     name = ''Plant B'', address = ''2 Oak Ave'', city = ''Austin'', state = ''TX'',
     zipCode = ''73301-0001'', naicsCode = None, industryDescription = Some ''Foundry'',
     averageEmployees = 40, createdAt = 100, updatedAt = 150\<rparr>"

definition est_C :: establishment where
  "est_C = \<lparr>e_id = 0x33333333333343338333333333333333, userId = ''user_U'',
     name = ''Plant C'', address = ''3 Pine Rd'', city = ''Reno'', state = ''NV'',
     zipCode = ''89501'', naicsCode = None, industryDescription = None,
     averageEmployees = 0, createdAt = 50, updatedAt = 50\<rparr>"

definition sub_A :: subscription where
  "sub_A = \<lparr>s_id = 0xaaaaaaaaaaaa4aaa8aaaaaaaaaaaaaaa,
     establishmentId = 0x11111111111141118111111111111111, year = 2025,
     clerkSubscriptionId = ''sub_1'', status = ''active'',
     s_createdAt = 210, s_updatedAt = 210\<rparr>"

definition sub_B :: subscription where
  "sub_B = \<lparr>s_id = 0xbbbbbbbbbbbb4bbb8bbbbbbbbbbbbbbb,
     establishmentId = 0xabcdefabcdef4abc8defabcdefabcdef, year = 2025,
     clerkSubscriptionId = ''sub_2'', status = ''active'',
     s_createdAt = 110, s_updatedAt = 110\<rparr>"

definition sample_store :: store where
  "sample_store = \<lparr>establishments = [est_A, est_B, est_C], subscriptions = [sub_A, sub_B]\<rparr>"

definition sample_env :: environment where
  "sample_env = \<lparr>gen_random_uuid = 0x44444444444444448444444444444444,
     db_now = 300, new_Date = 301\<rparr>"

definition sample_input :: establishment_input where
  "sample_input = \<lparr>name_in = Some ''Plant D'', address_in = Some ''4 Elm St'',
     city_in = Some ''Los Angeles'', state_in = Some ''ca'', zipCode_in = Some ''90001'',
     naicsCode_in = None, industryDescription_in = Some '''',
     averageEmployees_in = Some 25\<rparr>"

text \<open>A partial payload that holds \<open>averageEmployees\<close> alone.\<close>

definition only_averageEmployees :: establishment_input where
  "only_averageEmployees = \<lparr>name_in = None, address_in = None, city_in = None, state_in = None,
     zipCode_in = None, naicsCode_in = None, industryDescription_in = None,
     averageEmployees_in = Some 25\<rparr>"

text \<open>A partial payload that holds a region code in lower case and a number of employees.\<close>

definition state_and_employees :: establishment_input where
  "state_and_employees = \<lparr>name_in = None, address_in = None, city_in = None,
     state_in = Some ''nm'', zipCode_in = None, naicsCode_in = None,
     industryDescription_in = None, averageEmployees_in = Some 25\<rparr>"

section \<open>What the patterns accept\<close>

lemma rx_class_Nil: "rx_class P [] = []"
  by (simp add: rx_class_def)

lemma rx_class_Cons: "rx_class P (c # cs) = (if P c then [cs] else [])"
  by (simp add: rx_class_def)

lemma rx_rep_class:
  "rx_rep n (rx_class P) s =
     (if n \<le> length s \<and> (\<forall>c \<in> set (take n s). P c) then [drop n s] else [])"
proof (induction n arbitrary: s)
  case 0
  show ?case by simp
next
  case (Suc n)
  show ?case
  proof (cases s)
    case Nil
    then show ?thesis by (simp add: rx_class_Nil)
  next
    case (Cons c cs)
    then show ?thesis by (auto simp: rx_class_Cons Suc.IH)
  qed
qed

lemma naicsCodeRegex_iff:
  "naicsCodeRegex n \<longleftrightarrow> length n = 6 \<and> (\<forall>c \<in> set n. isDigit c)"
  by (auto simp: naicsCodeRegex_def rx_test_def rx_rep_class)

lemma zip_tail:
  "[] \<in> set (rx_opt (rx_seq (rx_lit CHR ''-'') (rx_rep 4 (rx_class isDigit))) t) \<longleftrightarrow>
     t = [] \<or> (length t = 5 \<and> hd t = CHR ''-'' \<and> (\<forall>c \<in> set (tl t). isDigit c))"
proof (cases t)
  case Nil
  then show ?thesis by (simp add: rx_opt_def)
next
  case (Cons c cs)
  then show ?thesis
    by (auto simp: rx_opt_def rx_seq_def rx_lit_def rx_class_Cons rx_rep_class)
qed

lemma zipCodeRegex_iff:
  "zipCodeRegex z \<longleftrightarrow>
     (length z = 5 \<and> (\<forall>c \<in> set z. isDigit c))
     \<or> (length z = 10 \<and> (\<forall>c \<in> set (take 5 z). isDigit c) \<and> z ! 5 = CHR ''-''
          \<and> (\<forall>c \<in> set (drop 6 z). isDigit c))"
proof (cases "5 \<le> length z \<and> (\<forall>c \<in> set (take 5 z). isDigit c)")
  case False
  have "\<not> zipCodeRegex z"
    using False by (simp add: zipCodeRegex_def rx_test_def rx_seq_def rx_rep_class)
  moreover have "\<not> (length z = 5 \<and> (\<forall>c \<in> set z. isDigit c))"
    using False by auto
  moreover have "\<not> (length z = 10 \<and> (\<forall>c \<in> set (take 5 z). isDigit c))"
    using False by auto
  ultimately show ?thesis by blast
next
  case True
  have m: "zipCodeRegex z \<longleftrightarrow>
      drop 5 z = [] \<or> (length (drop 5 z) = 5 \<and> hd (drop 5 z) = CHR ''-''
         \<and> (\<forall>c \<in> set (tl (drop 5 z)). isDigit c))"
    using True zip_tail [of "drop 5 z"]
    by (simp add: zipCodeRegex_def rx_test_def rx_seq_def rx_rep_class)
  have e: "drop 5 z = [] \<longleftrightarrow> length z = 5" using True by auto
  have "tl (drop 5 z) = drop (Suc 5) z" by (simp only: drop_Suc tl_drop)
  then have t: "tl (drop 5 z) = drop 6 z" by simp
  have h: "length z = 10 \<Longrightarrow> hd (drop 5 z) = z ! 5" by (simp add: hd_drop_conv_nth)
  have l: "length (drop 5 z) = 5 \<longleftrightarrow> length z = 10" using True by auto
  have a: "length z = 5 \<Longrightarrow> take 5 z = z" by simp
  show ?thesis
    unfolding m e t l using True h a by (metis)
qed

section \<open>Parsing and \<open>create\<close>\<close>

lemma protected_ctx_U: "protectedProcedure ctx_U = Inr ''user_U''"
  by (simp add: protectedProcedure_def ctx_U_def createTRPCContext_def user_U_def)

lemma protected_ctx_V: "protectedProcedure ctx_V = Inr ''user_V''"
  by (simp add: protectedProcedure_def ctx_V_def createTRPCContext_def user_V_def)

lemma uuid_id_A: "isUuid id_A"
  unfolding id_A_def by code_simp

lemma uuid_id_B: "isUuid id_B"
  unfolding id_B_def by code_simp

lemma uuid_id_B_upper: "isUuid id_B_upper"
  unfolding id_B_upper_def by code_simp

lemma value_id_A: "uuid_of_text id_A = 0x11111111111141118111111111111111"
  unfolding id_A_def by code_simp

lemma value_id_B: "uuid_of_text id_B = 0xabcdefabcdef4abc8defabcdefabcdef"
  unfolding id_B_def by code_simp

lemma value_id_B_upper: "uuid_of_text id_B_upper = 0xabcdefabcdef4abc8defabcdefabcdef"
  unfolding id_B_upper_def by code_simp

lemma parse_ok:
  assumes "establishmentInputSchema_issues inp = []"
  shows "\<exists>n a c s z k.
           name_in inp = Some n \<and> address_in inp = Some a \<and> city_in inp = Some c
           \<and> state_in inp = Some s \<and> zipCode_in inp = Some z \<and> averageEmployees_in inp = Some k
           \<and> establishmentInputSchema inp =
               Inr \<lparr>v_name = n, v_address = a, v_city = c, v_state = toUpperCase s,
                    v_zipCode = z, v_naicsCode = naicsCode_in inp,
                    v_industryDescription = industryDescription_in inp,
                    v_averageEmployees = k\<rparr>"
  using assms
  by (auto simp: establishmentInputSchema_def establishmentInputSchema_issues_def required_def
           split: option.splits if_splits)

lemma parse_fail:
  assumes "establishmentInputSchema_issues inp \<noteq> []"
  shows "establishmentInputSchema inp = Inl (establishmentInputSchema_issues inp)"
  using assms
  by (simp add: establishmentInputSchema_def split: option.splits)

lemma parse_Inr_issues:
  assumes "establishmentInputSchema inp = Inr v"
  shows "establishmentInputSchema_issues inp = []"
  using assms parse_fail [of inp] by (cases "establishmentInputSchema_issues inp = []") auto

lemma parse_fields:
  assumes "establishmentInputSchema inp = Inr v"
  shows "zipCode_in inp = Some (v_zipCode v) \<and> v_naicsCode v = naicsCode_in inp
       \<and> v_industryDescription v = industryDescription_in inp"
  using assms
  by (auto simp: establishmentInputSchema_def split: option.splits if_splits)

lemma create_rejects:
  assumes "protectedProcedure c = Inr u" and "establishmentInputSchema_issues inp \<noteq> []"
  shows "establishmentRouter_create c env st inp =
           (Inl (BAD_REQUEST (establishmentInputSchema_issues inp)), st)"
  using assms by (simp add: establishmentRouter_create_def parse_fail)

lemma create_inserts:
  assumes "protectedProcedure c = Inr u" and "establishmentInputSchema inp = Inr v"
    and "gen_random_uuid env \<notin> set (map e_id (establishments st))"
    and "fits_columns (new_row env u v)"
  shows "establishmentRouter_create c env st inp =
           (Inr (as_stored (new_row env u v)),
            st\<lparr>establishments := establishments st @ [as_stored (new_row env u v)]\<rparr>)"
  using assms by (simp add: establishmentRouter_create_def db_insert_def new_row_def)

lemma create_refused:
  assumes "protectedProcedure c = Inr u" and "establishmentInputSchema inp = Inr v"
    and "gen_random_uuid env \<in> set (map e_id (establishments st))
         \<or> \<not> fits_columns (new_row env u v)"
  shows "establishmentRouter_create c env st inp =
           (Inl (INTERNAL_SERVER_ERROR ''Failed to create establishment''), st)"
  using assms by (auto simp: establishmentRouter_create_def db_insert_def new_row_def)

lemma create_result:
  assumes "establishmentRouter_create c env st inp = (Inr r, st')"
  shows "\<exists>u v. protectedProcedure c = Inr u \<and> establishmentInputSchema inp = Inr v
            \<and> r = as_stored (new_row env u v)
            \<and> st' = st\<lparr>establishments := establishments st @ [r]\<rparr>"
  using assms
  by (auto simp: establishmentRouter_create_def db_insert_def
           split: sum.splits option.splits if_splits list.splits)

section \<open>Claims\<close>
text \<open>
  C1. For an authenticated caller \<open>u\<close>, \<open>list\<close> does not fail and returns exactly the
  establishments whose owner is \<open>u\<close> (each once, none of another owner), in ascending
  order of creation; it returns the empty list when \<open>u\<close> owns none.
\<close>

theorem list_returns_owned_rows_in_creation_order:
  assumes "protectedProcedure c = Inr u"
  shows "\<exists>rs. establishmentRouter_list c st = Inr rs
           \<and> mset rs = filter_mset (\<lambda>e. userId e = u) (mset (establishments st))
           \<and> (\<forall>e \<in> set (establishments st). e \<in> set rs \<longleftrightarrow> userId e = u)
           \<and> sorted (map createdAt rs)
           \<and> ((\<forall>e \<in> set (establishments st). userId e \<noteq> u) \<longrightarrow> rs = [])"
  using assms
  by (auto simp: establishmentRouter_list_def db_select_by_owner_def filter_empty_conv)

lemma list_sample: "establishmentRouter_list ctx_U sample_store = Inr [est_C, est_A]"
  by (simp add: establishmentRouter_list_def protected_ctx_U db_select_by_owner_def
      sample_store_def est_A_def est_B_def est_C_def)

theorem list_returns_owned_rows_in_creation_order_witness:
  "protectedProcedure ctx_U = Inr ''user_U''
   \<and> establishmentRouter_list ctx_U sample_store = Inr [est_C, est_A]
   \<and> mset [est_C, est_A] = filter_mset (\<lambda>e. userId e = ''user_U'') (mset (establishments sample_store))
   \<and> (est_B \<in> set (establishments sample_store) \<and> est_B \<notin> set [est_C, est_A])
   \<and> sorted (map createdAt [est_C, est_A])"
proof -
  from list_returns_owned_rows_in_creation_order [OF protected_ctx_U, of sample_store]
  obtain rs where rs: "establishmentRouter_list ctx_U sample_store = Inr rs"
    and m: "mset rs = filter_mset (\<lambda>e. userId e = ''user_U'') (mset (establishments sample_store))"
    and o: "\<forall>e \<in> set (establishments sample_store). e \<in> set rs \<longleftrightarrow> userId e = ''user_U''"
    and s: "sorted (map createdAt rs)"
    by blast
  have eq: "rs = [est_C, est_A]" using rs list_sample by simp
  have b: "est_B \<in> set (establishments sample_store)" by (simp add: sample_store_def)
  have "userId est_B \<noteq> ''user_U''" by (simp add: est_B_def)
  then have "est_B \<notin> set rs" using o b by blast
  then show ?thesis using protected_ctx_U rs m s b eq by simp
qed

lemma create_then_list:
  assumes "establishmentRouter_create c env st inp = (Inr r, st')"
    and "protectedProcedure c = Inr u" and "length u \<le> 255"
  shows "\<exists>rs. establishmentRouter_list c st' = Inr rs \<and> r \<in> set rs"
    and "protectedProcedure c' = Inr v \<Longrightarrow> v \<noteq> u \<Longrightarrow>
         \<exists>rs. establishmentRouter_list c' st' = Inr rs \<and> r \<notin> set rs"
  using assms create_result [OF assms(1)]
  by (auto simp: establishmentRouter_list_def db_select_by_owner_def new_row_def as_stored_def)

lemma filter_by_key:
  assumes "distinct (map e_id xs)" and "e \<in> set xs"
  shows "filter (\<lambda>x. e_id x = e_id e) xs = [e]"
  using assms
proof (induction xs)
  case Nil
  then show ?case by simp
next
  case (Cons x xs)
  show ?case
  proof (cases "x = e")
    case True
    have "e_id e \<notin> e_id ` set xs" using Cons.prems(1) True by simp
    then have "\<forall>y \<in> set xs. e_id y \<noteq> e_id e" by (metis imageI)
    then have "filter (\<lambda>y. e_id y = e_id e) xs = []"
      by (simp add: filter_empty_conv)
    then show ?thesis using True by simp
  next
    case False
    then have "e \<in> set xs" using Cons.prems(2) by simp
    moreover have "e_id x \<noteq> e_id e" using Cons.prems(1) calculation by auto
    ultimately show ?thesis using Cons by simp
  qed
qed

lemma map_by_key:
  assumes "distinct (map e_id xs)" and "e \<in> set xs"
  shows "map (\<lambda>x. if e_id x = e_id e then f x else x) xs = map (\<lambda>x. if x = e then f e else x) xs"
proof (rule map_cong [OF refl])
  fix x assume "x \<in> set xs"
  then have "e_id x = e_id e \<longleftrightarrow> x = e"
    using assms by (auto simp: distinct_map dest: inj_onD)
  then show "(if e_id x = e_id e then f x else x) = (if x = e then f e else x)" by auto
qed


lemma select_owned_empty:
  "db_select_owned st i u = [] \<longleftrightarrow> (\<forall>e \<in> set (establishments st). e_id e = i \<longrightarrow> userId e \<noteq> u)"
  by (auto simp: db_select_owned_def filter_empty_conv)

text \<open>
  C2. For a caller \<open>u\<close> and an identifier in UUID format, \<open>getById\<close> answers
  \<open>NOT_FOUND\<close> when no row has the identifier and when a row has it but belongs to
  another owner; the two answers are the same error, so the caller cannot tell the cases
  apart. A row has the identifier when the value of its \<open>id\<close> is the value the text of
  the request denotes.
\<close>

theorem getById_not_found_hides_foreign_rows:
  assumes "protectedProcedure c = Inr u" and "isUuid i"
    and "\<forall>e \<in> set (establishments st1). e_id e \<noteq> uuid_of_text i"
    and "\<exists>e \<in> set (establishments st2). e_id e = uuid_of_text i"
    and "\<forall>e \<in> set (establishments st2). e_id e = uuid_of_text i \<longrightarrow> userId e \<noteq> u"
  shows "establishmentRouter_getById c st1 i = Inl NOT_FOUND
       \<and> establishmentRouter_getById c st2 i = Inl NOT_FOUND
       \<and> establishmentRouter_getById c st1 i = establishmentRouter_getById c st2 i"
proof -
  have "db_select_owned st1 (uuid_of_text i) u = []"
    using assms(3) by (simp add: select_owned_empty)
  moreover have "db_select_owned st2 (uuid_of_text i) u = []"
    using assms(5) by (simp add: select_owned_empty)
  ultimately show ?thesis
    using assms(1,2) by (simp add: establishmentRouter_getById_def idSchema_def)
qed

lemma getById_owned:
  assumes "protectedProcedure c = Inr u" and "isUuid i"
    and "e \<in> set (establishments st)" and "e_id e = uuid_of_text i" and "userId e = u"
    and "distinct (map e_id (establishments st))"
  shows "establishmentRouter_getById c st i = Inr e"
proof -
  have "filter (\<lambda>x. e_id x = e_id e \<and> userId x = u) (establishments st)
          = filter (\<lambda>x. userId x = u) (filter (\<lambda>x. e_id x = e_id e) (establishments st))"
    by (simp add: conj_commute)
  also have "\<dots> = [e]"
    using filter_by_key [OF assms(6,3)] assms(5) by simp
  finally have "db_select_owned st (uuid_of_text i) u = [e]"
    using assms(4) by (simp add: db_select_owned_def)
  then show ?thesis
    using assms(1,2) by (simp add: establishmentRouter_getById_def idSchema_def)
qed

theorem getById_not_found_hides_foreign_rows_witness:
  "establishmentRouter_getById ctx_U (sample_store\<lparr>establishments := [est_A, est_C]\<rparr>) id_B_upper
     = Inl NOT_FOUND
   \<and> establishmentRouter_getById ctx_U sample_store id_B_upper = Inl NOT_FOUND
   \<and> establishmentRouter_getById ctx_U sample_store id_B = Inl NOT_FOUND
   \<and> establishmentRouter_getById ctx_V sample_store id_B_upper = Inr est_B"
proof -
  have 1: "\<forall>e \<in> set (establishments (sample_store\<lparr>establishments := [est_A, est_C]\<rparr>)).
              e_id e \<noteq> uuid_of_text i" if "uuid_of_text i = 0xabcdefabcdef4abc8defabcdefabcdef" for i
    using that by (simp add: est_A_def est_C_def)
  have 2: "\<exists>e \<in> set (establishments sample_store). e_id e = uuid_of_text i"
    if "uuid_of_text i = 0xabcdefabcdef4abc8defabcdefabcdef" for i
    using that by (simp add: sample_store_def est_B_def)
  have 3: "\<forall>e \<in> set (establishments sample_store). e_id e = uuid_of_text i \<longrightarrow> userId e \<noteq> ''user_U''"
    if "uuid_of_text i = 0xabcdefabcdef4abc8defabcdefabcdef" for i
    using that by (simp add: sample_store_def est_A_def est_B_def est_C_def)
  have 4: "establishmentRouter_getById ctx_V sample_store id_B_upper = Inr est_B"
    by (rule getById_owned [OF protected_ctx_V uuid_id_B_upper])
       (simp_all add: value_id_B_upper sample_store_def est_A_def est_B_def est_C_def)
  from getById_not_found_hides_foreign_rows
         [OF protected_ctx_U uuid_id_B_upper 1 [OF value_id_B_upper] 2 [OF value_id_B_upper]
             3 [OF value_id_B_upper]]
       getById_not_found_hides_foreign_rows
         [OF protected_ctx_U uuid_id_B 1 [OF value_id_B] 2 [OF value_id_B] 3 [OF value_id_B]]
       4
  show ?thesis by simp
qed
lemma zipCode_check_iff:
  "zipCode_check z \<longleftrightarrow>
     (length z = 5 \<and> (\<forall>c \<in> set z. isDigit c))
     \<or> (length z = 10 \<and> (\<forall>c \<in> set (take 5 z). isDigit c) \<and> z ! 5 = CHR ''-''
          \<and> (\<forall>c \<in> set (drop 6 z). isDigit c))"
  unfolding zipCode_check_def zipCodeRegex_iff by auto

lemma in_required:
  "p \<in> set (required chk q v) \<longleftrightarrow> p = q \<and> (case v of None \<Rightarrow> True | Some x \<Rightarrow> \<not> chk x)"
  by (cases v) (auto simp: required_def)

lemma in_optional:
  "p \<in> set (optional chk q v) \<longleftrightarrow> p = q \<and> (case v of None \<Rightarrow> False | Some x \<Rightarrow> \<not> chk x)"
  by (cases v) (auto simp: optional_def)

lemma zipCode_issue_iff:
  "''zipCode'' \<in> set (establishmentInputSchema_issues inp) \<longleftrightarrow>
     (case zipCode_in inp of None \<Rightarrow> True | Some z \<Rightarrow> \<not> zipCode_check z)"
  by (simp add: establishmentInputSchema_issues_def in_required in_optional)

lemma naicsCode_issue_iff:
  "''naicsCode'' \<in> set (establishmentInputSchema_issues inp) \<longleftrightarrow>
     (case naicsCode_in inp of None \<Rightarrow> False | Some n \<Rightarrow> \<not> naicsCode_check n)"
  by (simp add: establishmentInputSchema_issues_def in_required in_optional)

lemma industryDescription_issue_iff:
  "''industryDescription'' \<in> set (establishmentInputSchema_issues inp) \<longleftrightarrow>
     (case industryDescription_in inp of None \<Rightarrow> False | Some n \<Rightarrow> \<not> industryDescription_check n)"
  by (simp add: establishmentInputSchema_issues_def in_required in_optional)

text \<open>
  What \<open>create\<close> answers for a payload that passes the schema: the new row when the
  store takes it, the internal error when the store refuses it.
\<close>

lemma issues_Nil_checks:
  assumes "establishmentInputSchema_issues inp = []"
  shows "zipCode_in inp = Some z \<Longrightarrow> zipCode_check z"
    and "naicsCode_in inp = Some n \<Longrightarrow> naicsCode_check n"
    and "industryDescription_in inp = Some x \<Longrightarrow> industryDescription_check x"
  using assms zipCode_issue_iff [of inp] naicsCode_issue_iff [of inp]
    industryDescription_issue_iff [of inp]
  by simp_all

lemma zipCode_check_length: "zipCode_check z \<Longrightarrow> length z \<le> 10"
  by (simp add: zipCode_check_def)

lemma naicsCode_check_length: "naicsCode_check n \<Longrightarrow> length n = 6"
  by (simp add: naicsCode_check_def naicsCodeRegex_iff)

lemma create_valid:
  assumes "protectedProcedure c = Inr u" and "establishmentInputSchema_issues inp = []"
  shows "\<exists>v. establishmentInputSchema inp = Inr v
       \<and> zipCode_in inp = Some (zipCode (as_stored (new_row env u v)))
       \<and> naicsCode (as_stored (new_row env u v)) = or_null (naicsCode_in inp)
       \<and> industryDescription (as_stored (new_row env u v))
           = or_null (industryDescription_in inp)
       \<and> establishmentRouter_create c env st inp
           = (if gen_random_uuid env \<notin> set (map e_id (establishments st))
                 \<and> fits_columns (new_row env u v)
              then (Inr (as_stored (new_row env u v)),
                    st\<lparr>establishments :=
                         establishments st @ [as_stored (new_row env u v)]\<rparr>)
              else (Inl (INTERNAL_SERVER_ERROR ''Failed to create establishment''), st))"
proof -
  from parse_ok [OF assms(2)] obtain v where v: "establishmentInputSchema inp = Inr v"
    by blast
  from parse_fields [OF v] have pf: "zipCode_in inp = Some (v_zipCode v)"
    "v_naicsCode v = naicsCode_in inp" "v_industryDescription v = industryDescription_in inp"
    by simp_all
  have z: "length (v_zipCode v) \<le> 10"
    using issues_Nil_checks(1) [OF assms(2) pf(1)] by (rule zipCode_check_length)
  have n: "take 6 k = k" if "naicsCode_in inp = Some k" for k
    using issues_Nil_checks(2) [OF assms(2) that] naicsCode_check_length [of k] by simp
  have x: "take 500 k = k" if "industryDescription_in inp = Some k" for k
    using issues_Nil_checks(3) [OF assms(2) that] by (simp add: industryDescription_check_def)
  have f: "zipCode_in inp = Some (zipCode (as_stored (new_row env u v)))"
    "naicsCode (as_stored (new_row env u v)) = or_null (naicsCode_in inp)"
    "industryDescription (as_stored (new_row env u v)) = or_null (industryDescription_in inp)"
    using pf z n x
    by (auto simp: new_row_def as_stored_def or_null_def split: option.splits)
  have "establishmentRouter_create c env st inp
           = (if gen_random_uuid env \<notin> set (map e_id (establishments st))
                 \<and> fits_columns (new_row env u v)
              then (Inr (as_stored (new_row env u v)),
                    st\<lparr>establishments :=
                         establishments st @ [as_stored (new_row env u v)]\<rparr>)
              else (Inl (INTERNAL_SERVER_ERROR ''Failed to create establishment''), st))"
    using create_inserts [OF assms(1) v, of env st] create_refused [OF assms(1) v, of env st]
    by (cases "gen_random_uuid env \<notin> set (map e_id (establishments st))
                 \<and> fits_columns (new_row env u v)") auto
  with v f show ?thesis by blast
qed

text \<open>
  C4. In a create payload a postal code is accepted exactly when it is five digits, or
  five digits, a hyphen and four digits; any other shape is a validation error of the
  request. An industry classification code that is present is accepted exactly when it is
  six digits. When the code is omitted the field raises no issue. A payload that raises
  no issue is stored by \<open>create\<close>, with its postal code, with its classification code
  and with \<open>null\<close> for an omitted one, whenever the store takes the row (the identifier
  drawn is new and the values fit the columns).
\<close>

theorem create_checks_zipCode_and_naicsCode:
  assumes "protectedProcedure c = Inr u"
  shows "(\<forall>z. zipCode_in inp = Some z \<longrightarrow>
            (if (length z = 5 \<and> (\<forall>c \<in> set z. isDigit c))
                \<or> (length z = 10 \<and> (\<forall>c \<in> set (take 5 z). isDigit c) \<and> z ! 5 = CHR ''-''
                    \<and> (\<forall>c \<in> set (drop 6 z). isDigit c))
             then ''zipCode'' \<notin> set (establishmentInputSchema_issues inp)
             else ''zipCode'' \<in> set (establishmentInputSchema_issues inp)
                  \<and> establishmentRouter_create c env st inp
                      = (Inl (BAD_REQUEST (establishmentInputSchema_issues inp)), st)))
       \<and> (\<forall>n. naicsCode_in inp = Some n \<longrightarrow>
            (if length n = 6 \<and> (\<forall>c \<in> set n. isDigit c)
             then ''naicsCode'' \<notin> set (establishmentInputSchema_issues inp)
             else ''naicsCode'' \<in> set (establishmentInputSchema_issues inp)
                  \<and> establishmentRouter_create c env st inp
                      = (Inl (BAD_REQUEST (establishmentInputSchema_issues inp)), st)))
       \<and> (naicsCode_in inp = None \<longrightarrow>
            ''naicsCode'' \<notin> set (establishmentInputSchema_issues inp))
       \<and> (establishmentInputSchema_issues inp = [] \<longrightarrow>
            (\<exists>v. establishmentInputSchema inp = Inr v
               \<and> (gen_random_uuid env \<notin> set (map e_id (establishments st))
                    \<and> fits_columns (new_row env u v) \<longrightarrow>
                  (\<exists>r. establishmentRouter_create c env st inp
                          = (Inr r, st\<lparr>establishments := establishments st @ [r]\<rparr>)
                       \<and> zipCode_in inp = Some (zipCode r)
                       \<and> (case naicsCode_in inp of None \<Rightarrow> naicsCode r = None
                           | Some n \<Rightarrow> naicsCode r = Some n)))))"
proof (intro conjI allI impI)
  fix z assume z: "zipCode_in inp = Some z"
  show "if (length z = 5 \<and> (\<forall>c \<in> set z. isDigit c))
                \<or> (length z = 10 \<and> (\<forall>c \<in> set (take 5 z). isDigit c) \<and> z ! 5 = CHR ''-''
                    \<and> (\<forall>c \<in> set (drop 6 z). isDigit c))
             then ''zipCode'' \<notin> set (establishmentInputSchema_issues inp)
             else ''zipCode'' \<in> set (establishmentInputSchema_issues inp)
                  \<and> establishmentRouter_create c env st inp
                      = (Inl (BAD_REQUEST (establishmentInputSchema_issues inp)), st)"
  proof (cases "zipCode_check z")
    case True
    then show ?thesis using z zipCode_issue_iff [of inp] zipCode_check_iff [of z] by simp
  next
    case False
    then have m: "''zipCode'' \<in> set (establishmentInputSchema_issues inp)"
      using z zipCode_issue_iff [of inp] by simp
    then have "establishmentInputSchema_issues inp \<noteq> []" by auto
    from create_rejects [OF assms this] m False zipCode_check_iff [of z]
    show ?thesis by simp
  qed
next
  fix n assume n: "naicsCode_in inp = Some n"
  show "if length n = 6 \<and> (\<forall>c \<in> set n. isDigit c)
             then ''naicsCode'' \<notin> set (establishmentInputSchema_issues inp)
             else ''naicsCode'' \<in> set (establishmentInputSchema_issues inp)
                  \<and> establishmentRouter_create c env st inp
                      = (Inl (BAD_REQUEST (establishmentInputSchema_issues inp)), st)"
  proof (cases "naicsCode_check n")
    case True
    then show ?thesis
      using n naicsCode_issue_iff [of inp] naicsCodeRegex_iff [of n]
      by (simp add: naicsCode_check_def)
  next
    case False
    then have m: "''naicsCode'' \<in> set (establishmentInputSchema_issues inp)"
      using n naicsCode_issue_iff [of inp] by simp
    then have "establishmentInputSchema_issues inp \<noteq> []" by auto
    from create_rejects [OF assms this] m False naicsCodeRegex_iff [of n]
    show ?thesis by (simp add: naicsCode_check_def)
  qed
next
  assume "naicsCode_in inp = None"
  then show "''naicsCode'' \<notin> set (establishmentInputSchema_issues inp)"
    using naicsCode_issue_iff [of inp] by simp
next
  assume ok: "establishmentInputSchema_issues inp = []"
  from create_valid [OF assms ok, of env st] obtain v where
    v: "establishmentInputSchema inp = Inr v"
    and z: "zipCode_in inp = Some (zipCode (as_stored (new_row env u v)))"
    and n: "naicsCode (as_stored (new_row env u v)) = or_null (naicsCode_in inp)"
    and r: "establishmentRouter_create c env st inp
           = (if gen_random_uuid env \<notin> set (map e_id (establishments st))
                 \<and> fits_columns (new_row env u v)
              then (Inr (as_stored (new_row env u v)),
                    st\<lparr>establishments :=
                         establishments st @ [as_stored (new_row env u v)]\<rparr>)
              else (Inl (INTERNAL_SERVER_ERROR ''Failed to create establishment''), st))"
    by blast
  have nz: "case naicsCode_in inp of None \<Rightarrow> naicsCode (as_stored (new_row env u v)) = None
             | Some k \<Rightarrow> naicsCode (as_stored (new_row env u v)) = Some k"
  proof (cases "naicsCode_in inp")
    case None
    then show ?thesis using n by (simp add: or_null_def)
  next
    case (Some k)
    have "naicsCode_check k" by (rule issues_Nil_checks(2) [OF ok Some])
    then have "k \<noteq> []" using naicsCode_check_length [of k] by auto
    then show ?thesis using n Some by (simp add: or_null_def)
  qed
  show "\<exists>v. establishmentInputSchema inp = Inr v
               \<and> (gen_random_uuid env \<notin> set (map e_id (establishments st))
                    \<and> fits_columns (new_row env u v) \<longrightarrow>
                  (\<exists>r. establishmentRouter_create c env st inp
                          = (Inr r, st\<lparr>establishments := establishments st @ [r]\<rparr>)
                       \<and> zipCode_in inp = Some (zipCode r)
                       \<and> (case naicsCode_in inp of None \<Rightarrow> naicsCode r = None
                           | Some n \<Rightarrow> naicsCode r = Some n)))"
    using v z nz r by auto
qed
lemma toUpperCase_ca: "toUpperCase ''ca'' = ''CA''"
  by code_simp

lemma toUpperCase_ZZ: "toUpperCase ''ZZ'' = ''ZZ''"
  by code_simp

lemma sample_env_fresh:
  "gen_random_uuid sample_env \<notin> set (map e_id (establishments sample_store))"
  by (simp add: sample_env_def sample_store_def est_A_def est_B_def est_C_def)

text \<open>The sample payload with a given region code, postal code and classification code.\<close>

lemma sample_parse:
  assumes "length s = 2" and "zipCode_check z"
    and "case n of None \<Rightarrow> True | Some k \<Rightarrow> naicsCode_check k"
  shows "establishmentInputSchema
           (sample_input\<lparr>state_in := Some s, zipCode_in := Some z, naicsCode_in := n\<rparr>)
         = Inr \<lparr>v_name = ''Plant D'', v_address = ''4 Elm St'', v_city = ''Los Angeles'',
                v_state = toUpperCase s, v_zipCode = z, v_naicsCode = n,
                v_industryDescription = Some '''', v_averageEmployees = 25\<rparr>"
  using assms
  by (auto simp: establishmentInputSchema_def establishmentInputSchema_issues_def
      sample_input_def required_def optional_def name_check_def address_check_def
      city_check_def state_check_def industryDescription_check_def averageEmployees_check_def
      split: option.splits)

lemma sample_input_eq:
  "sample_input = sample_input\<lparr>state_in := Some ''ca'', zipCode_in := Some ''90001'',
                                 naicsCode_in := None\<rparr>"
  by (simp add: sample_input_def)

lemma zip_90001: "zipCode_check ''90001''"
  by (simp add: zipCode_check_iff isDigit_def)

lemma zip_90001_1234: "zipCode_check ''90001-1234''"
  by (simp add: zipCode_check_iff isDigit_def)

lemma naics_123456: "naicsCode_check ''123456''"
  by (simp add: naicsCode_check_def naicsCodeRegex_iff isDigit_def)

lemma sample_input_issues: "establishmentInputSchema_issues sample_input = []"
  using sample_parse [of "''ca''" "''90001''" None] zip_90001 sample_input_eq
  by (simp add: parse_Inr_issues)

lemma sample_row_fits:
  assumes "fits_varchar 2 s" and "fits_varchar 10 z"
    and "case n of None \<Rightarrow> True | Some k \<Rightarrow> fits_varchar 6 k"
  shows "fits_columns (new_row sample_env ''user_U''
           \<lparr>v_name = ''Plant D'', v_address = ''4 Elm St'', v_city = ''Los Angeles'',
             v_state = s, v_zipCode = z, v_naicsCode = n,
             v_industryDescription = Some '''', v_averageEmployees = 25\<rparr>)"
  using assms
  by (auto simp: fits_columns_def new_row_def fits_integer_def or_null_def
      split: option.splits) (simp_all add: fits_varchar_def)

theorem create_checks_zipCode_and_naicsCode_witness:
  "fst (establishmentRouter_create ctx_U sample_env sample_store
            (sample_input\<lparr>zipCode_in := Some ''9000''\<rparr>)) = Inl (BAD_REQUEST [''zipCode''])
   \<and> fst (establishmentRouter_create ctx_U sample_env sample_store
            (sample_input\<lparr>naicsCode_in := Some ''12345''\<rparr>)) = Inl (BAD_REQUEST [''naicsCode''])
   \<and> (\<exists>r. establishmentRouter_create ctx_U sample_env sample_store sample_input
             = (Inr r, sample_store\<lparr>establishments := establishments sample_store @ [r]\<rparr>)
          \<and> zipCode r = ''90001'' \<and> naicsCode r = None)
   \<and> (\<exists>r. establishmentRouter_create ctx_U sample_env sample_store
               (sample_input\<lparr>zipCode_in := Some ''90001-1234'', naicsCode_in := Some ''123456''\<rparr>)
             = (Inr r, sample_store\<lparr>establishments := establishments sample_store @ [r]\<rparr>)
          \<and> zipCode r = ''90001-1234'' \<and> naicsCode r = Some ''123456'')"
proof -
  note T = create_checks_zipCode_and_naicsCode [OF protected_ctx_U, of _ sample_env sample_store]
  have i: "establishmentInputSchema_issues (sample_input\<lparr>zipCode_in := Some ''9000''\<rparr>)
             = [''zipCode'']"
    by (simp add: establishmentInputSchema_issues_def sample_input_def required_def optional_def
      name_check_def address_check_def city_check_def state_check_def zipCode_check_iff
      industryDescription_check_def averageEmployees_check_def)
  have a: "fst (establishmentRouter_create ctx_U sample_env sample_store
            (sample_input\<lparr>zipCode_in := Some ''9000''\<rparr>)) = Inl (BAD_REQUEST [''zipCode''])"
    using T [of "sample_input\<lparr>zipCode_in := Some ''9000''\<rparr>"] i by simp
  have j: "establishmentInputSchema_issues (sample_input\<lparr>naicsCode_in := Some ''12345''\<rparr>)
             = [''naicsCode'']"
    using zip_90001
    by (simp add: establishmentInputSchema_issues_def sample_input_def required_def optional_def
      name_check_def address_check_def city_check_def state_check_def naicsCode_check_def
      naicsCodeRegex_iff industryDescription_check_def averageEmployees_check_def)
  have b: "fst (establishmentRouter_create ctx_U sample_env sample_store
            (sample_input\<lparr>naicsCode_in := Some ''12345''\<rparr>)) = Inl (BAD_REQUEST [''naicsCode''])"
    using T [of "sample_input\<lparr>naicsCode_in := Some ''12345''\<rparr>"] j by simp
  have p1: "establishmentInputSchema sample_input
         = Inr \<lparr>v_name = ''Plant D'', v_address = ''4 Elm St'', v_city = ''Los Angeles'',
                v_state = ''CA'', v_zipCode = ''90001'', v_naicsCode = None,
                v_industryDescription = Some '''', v_averageEmployees = 25\<rparr>"
    using sample_parse [of "''ca''" "''90001''" None] zip_90001 sample_input_eq toUpperCase_ca
    by simp
  have f1: "fits_columns (new_row sample_env ''user_U''
           \<lparr>v_name = ''Plant D'', v_address = ''4 Elm St'', v_city = ''Los Angeles'',
             v_state = ''CA'', v_zipCode = ''90001'', v_naicsCode = None,
             v_industryDescription = Some '''', v_averageEmployees = 25\<rparr>)"
    by (rule sample_row_fits) (simp_all add: fits_varchar_def)
  have c: "\<exists>r. establishmentRouter_create ctx_U sample_env sample_store sample_input
             = (Inr r, sample_store\<lparr>establishments := establishments sample_store @ [r]\<rparr>)
          \<and> zipCode r = ''90001'' \<and> naicsCode r = None"
    using T [of sample_input] sample_input_issues p1 f1 sample_env_fresh
    by (auto simp: sample_input_def)
  let ?q = "sample_input\<lparr>zipCode_in := Some ''90001-1234'', naicsCode_in := Some ''123456''\<rparr>"
  have q: "?q = sample_input\<lparr>state_in := Some ''ca'', zipCode_in := Some ''90001-1234'',
                              naicsCode_in := Some ''123456''\<rparr>"
    by (simp add: sample_input_def)
  have p2: "establishmentInputSchema ?q
         = Inr \<lparr>v_name = ''Plant D'', v_address = ''4 Elm St'', v_city = ''Los Angeles'',
                v_state = ''CA'', v_zipCode = ''90001-1234'', v_naicsCode = Some ''123456'',
                v_industryDescription = Some '''', v_averageEmployees = 25\<rparr>"
    using sample_parse [of "''ca''" "''90001-1234''" "Some ''123456''"]
      zip_90001_1234 naics_123456 toUpperCase_ca
    unfolding q by simp
  have f2: "fits_columns (new_row sample_env ''user_U''
           \<lparr>v_name = ''Plant D'', v_address = ''4 Elm St'', v_city = ''Los Angeles'',
             v_state = ''CA'', v_zipCode = ''90001-1234'', v_naicsCode = Some ''123456'',
             v_industryDescription = Some '''', v_averageEmployees = 25\<rparr>)"
    by (rule sample_row_fits) (simp_all add: fits_varchar_def)
  have d: "\<exists>r. establishmentRouter_create ctx_U sample_env sample_store ?q
             = (Inr r, sample_store\<lparr>establishments := establishments sample_store @ [r]\<rparr>)
          \<and> zipCode r = ''90001-1234'' \<and> naicsCode r = Some ''123456''"
    using T [of ?q] parse_Inr_issues [OF p2] p2 f2 sample_env_fresh
    by (auto simp: sample_input_def)
  show ?thesis using a b c d by blast
qed
text \<open>
  C10. A create payload whose optional industry description is present and empty passes
  the check of that field (the field has no minimum length); when the payload raises no
  issue and the store takes the row, \<open>create\<close> succeeds and the row holds \<open>null\<close>
  there; and no row that \<open>create\<close> returns for such a payload holds the empty text.
\<close>

theorem create_stores_null_for_empty_industryDescription:
  assumes "protectedProcedure c = Inr u" and "industryDescription_in inp = Some []"
  shows "''industryDescription'' \<notin> set (establishmentInputSchema_issues inp)
       \<and> (establishmentInputSchema_issues inp = [] \<longrightarrow>
            (\<exists>v. establishmentInputSchema inp = Inr v
               \<and> (gen_random_uuid env \<notin> set (map e_id (establishments st))
                    \<and> fits_columns (new_row env u v) \<longrightarrow>
                  (\<exists>r. establishmentRouter_create c env st inp
                          = (Inr r, st\<lparr>establishments := establishments st @ [r]\<rparr>)
                       \<and> industryDescription r = None))))
       \<and> (\<forall>r st'. establishmentRouter_create c env st inp = (Inr r, st') \<longrightarrow>
            industryDescription r = None \<and> industryDescription r \<noteq> Some [])"
proof (intro conjI allI impI)
  show "''industryDescription'' \<notin> set (establishmentInputSchema_issues inp)"
    using assms(2) industryDescription_issue_iff [of inp]
    by (simp add: industryDescription_check_def)
next
  assume ok: "establishmentInputSchema_issues inp = []"
  from create_valid [OF assms(1) ok, of env st] assms(2)
  show "\<exists>v. establishmentInputSchema inp = Inr v
               \<and> (gen_random_uuid env \<notin> set (map e_id (establishments st))
                    \<and> fits_columns (new_row env u v) \<longrightarrow>
                  (\<exists>r. establishmentRouter_create c env st inp
                          = (Inr r, st\<lparr>establishments := establishments st @ [r]\<rparr>)
                       \<and> industryDescription r = None))"
    by (auto simp: or_null_def)
next
  fix r st' assume r: "establishmentRouter_create c env st inp = (Inr r, st')"
  from create_result [OF r] obtain u' v where v: "establishmentInputSchema inp = Inr v"
    and n: "r = as_stored (new_row env u' v)" by blast
  from parse_fields [OF v] assms(2) n
  show "industryDescription r = None" by (simp add: new_row_def as_stored_def or_null_def)
  then show "industryDescription r \<noteq> Some []" by simp
qed

theorem create_stores_null_for_empty_industryDescription_witness:
  "industryDescription_in sample_input = Some []
   \<and> ''industryDescription'' \<notin> set (establishmentInputSchema_issues sample_input)
   \<and> (\<exists>r. establishmentRouter_create ctx_U sample_env sample_store sample_input
             = (Inr r, sample_store\<lparr>establishments := establishments sample_store @ [r]\<rparr>)
          \<and> industryDescription r = None)"
proof -
  have h: "industryDescription_in sample_input = Some []" by (simp add: sample_input_def)
  have p1: "establishmentInputSchema sample_input
         = Inr \<lparr>v_name = ''Plant D'', v_address = ''4 Elm St'', v_city = ''Los Angeles'',
                v_state = ''CA'', v_zipCode = ''90001'', v_naicsCode = None,
                v_industryDescription = Some '''', v_averageEmployees = 25\<rparr>"
    using sample_parse [of "''ca''" "''90001''" None] zip_90001 sample_input_eq toUpperCase_ca
    by simp
  have f1: "fits_columns (new_row sample_env ''user_U''
           \<lparr>v_name = ''Plant D'', v_address = ''4 Elm St'', v_city = ''Los Angeles'',
             v_state = ''CA'', v_zipCode = ''90001'', v_naicsCode = None,
             v_industryDescription = Some '''', v_averageEmployees = 25\<rparr>)"
    by (rule sample_row_fits) (simp_all add: fits_varchar_def)
  from create_stores_null_for_empty_industryDescription
         [OF protected_ctx_U h, of sample_env sample_store]
       sample_input_issues sample_env_fresh h p1 f1
  show ?thesis by auto
qed

text \<open>
  The store refuses a number of employees beyond 32 bits, which the schema lets through:
  the request ends in the internal error and nothing is stored.
\<close>

lemma create_refuses_int4_overflow:
  "establishmentRouter_create ctx_U sample_env sample_store
     (sample_input\<lparr>averageEmployees_in := Some 2147483648\<rparr>)
   = (Inl (INTERNAL_SERVER_ERROR ''Failed to create establishment''), sample_store)"
proof -
  let ?p = "sample_input\<lparr>averageEmployees_in := Some 2147483648\<rparr>"
  have i: "establishmentInputSchema_issues ?p = []"
    using sample_input_issues
    by (simp add: establishmentInputSchema_issues_def sample_input_def required_def
        averageEmployees_check_def)
  from create_valid [OF protected_ctx_U i, of sample_env sample_store]
  obtain v where v: "establishmentInputSchema ?p = Inr v"
    and r: "establishmentRouter_create ctx_U sample_env sample_store ?p
           = (if gen_random_uuid sample_env \<notin> set (map e_id (establishments sample_store))
                 \<and> fits_columns (new_row sample_env ''user_U'' v)
              then (Inr (as_stored (new_row sample_env ''user_U'' v)),
                    sample_store\<lparr>establishments :=
                       establishments sample_store
                       @ [as_stored (new_row sample_env ''user_U'' v)]\<rparr>)
              else (Inl (INTERNAL_SERVER_ERROR ''Failed to create establishment''), sample_store))"
    by blast
  from parse_ok [OF i] v have "v_averageEmployees v = 2147483648"
    by (auto simp: sample_input_def)
  then have "\<not> fits_columns (new_row sample_env ''user_U'' v)"
    by (simp add: fits_columns_def new_row_def fits_integer_def)
  with r show ?thesis by simp
qed

text \<open>
  Upper case beyond ASCII: e with acute becomes E with acute, the sharp s becomes \<open>SS\<close>,
  so that a region code of two sharp s passes the schema and is refused by the column of
  two characters.
\<close>

lemma toUpperCase_latin1:
  "toUpperCase [CHR 0xE9, CHR 0xDF] = [CHR 0xC9, CHR ''S'', CHR ''S'']"
  by code_simp

lemma create_refuses_wide_state:
  "establishmentRouter_create ctx_U sample_env sample_store
     (sample_input\<lparr>state_in := Some [CHR 0xDF, CHR 0xDF]\<rparr>)
   = (Inl (INTERNAL_SERVER_ERROR ''Failed to create establishment''), sample_store)"
proof -
  let ?p = "sample_input\<lparr>state_in := Some [CHR 0xDF, CHR 0xDF]\<rparr>"
  have u: "toUpperCase [CHR 0xDF, CHR 0xDF] = ''SSSS''" by code_simp
  have i: "establishmentInputSchema_issues ?p = []"
    using sample_input_issues
    by (simp add: establishmentInputSchema_issues_def sample_input_def required_def
        state_check_def)
  from create_valid [OF protected_ctx_U i, of sample_env sample_store]
  obtain v where v: "establishmentInputSchema ?p = Inr v"
    and r: "establishmentRouter_create ctx_U sample_env sample_store ?p
           = (if gen_random_uuid sample_env \<notin> set (map e_id (establishments sample_store))
                 \<and> fits_columns (new_row sample_env ''user_U'' v)
              then (Inr (as_stored (new_row sample_env ''user_U'' v)),
                    sample_store\<lparr>establishments :=
                       establishments sample_store
                       @ [as_stored (new_row sample_env ''user_U'' v)]\<rparr>)
              else (Inl (INTERNAL_SERVER_ERROR ''Failed to create establishment''), sample_store))"
    by blast
  from parse_ok [OF i] v u have "v_state v = ''SSSS''"
    by (auto simp: sample_input_def)
  then have "\<not> fits_columns (new_row sample_env ''user_U'' v)"
    by (simp add: fits_columns_def new_row_def fits_varchar_def)
  with r show ?thesis by simp
qed

lemma state_issue_iff:
  "''state'' \<in> set (establishmentInputSchema_issues inp) \<longleftrightarrow>
     (case state_in inp of None \<Rightarrow> True | Some s \<Rightarrow> length s \<noteq> 2)"
  by (simp add: establishmentInputSchema_issues_def in_required in_optional state_check_def
           split: option.splits)

text \<open>
  C3. A region code is to be accepted only if it has two characters and, in upper case, is
  one of the 51 recognised codes. The schema of the router checks the length and converts
  to upper case, and nothing else: the code \<open>ZZ\<close>, which is not in \<open>US_STATE_CODES\<close>,
  raises no issue and is stored by \<open>create\<close>, while the schema of the form does require
  membership.
\<close>

theorem create_accepts_state_outside_US_STATE_CODES:
  "''ZZ'' \<notin> set US_STATE_CODES
   \<and> establishmentInputSchema_issues (sample_input\<lparr>state_in := Some ''ZZ''\<rparr>) = []
   \<and> map_sum id state
        (fst (establishmentRouter_create ctx_U sample_env sample_store
               (sample_input\<lparr>state_in := Some ''ZZ''\<rparr>))) = Inr ''ZZ''"
proof -
  let ?p = "sample_input\<lparr>state_in := Some ''ZZ''\<rparr>"
  have a: "''ZZ'' \<notin> set US_STATE_CODES" by (simp add: US_STATE_CODES_def)
  have q: "?p = sample_input\<lparr>state_in := Some ''ZZ'', zipCode_in := Some ''90001'',
                              naicsCode_in := None\<rparr>"
    by (simp add: sample_input_def)
  have p: "establishmentInputSchema ?p
         = Inr \<lparr>v_name = ''Plant D'', v_address = ''4 Elm St'', v_city = ''Los Angeles'',
                v_state = ''ZZ'', v_zipCode = ''90001'', v_naicsCode = None,
                v_industryDescription = Some '''', v_averageEmployees = 25\<rparr>"
  proof -
    have "establishmentInputSchema
            (sample_input\<lparr>state_in := Some ''ZZ'', zipCode_in := Some ''90001'',
                          naicsCode_in := None\<rparr>)
         = Inr \<lparr>v_name = ''Plant D'', v_address = ''4 Elm St'', v_city = ''Los Angeles'',
                v_state = ''ZZ'', v_zipCode = ''90001'', v_naicsCode = None,
                v_industryDescription = Some '''', v_averageEmployees = 25\<rparr>"
      using sample_parse [of "''ZZ''" "''90001''" None] zip_90001 toUpperCase_ZZ by simp
    then show ?thesis by (subst q)
  qed
  have b: "establishmentInputSchema_issues ?p = []" by (rule parse_Inr_issues [OF p])
  have f: "fits_columns (new_row sample_env ''user_U''
           \<lparr>v_name = ''Plant D'', v_address = ''4 Elm St'', v_city = ''Los Angeles'',
             v_state = ''ZZ'', v_zipCode = ''90001'', v_naicsCode = None,
             v_industryDescription = Some '''', v_averageEmployees = 25\<rparr>)"
    by (rule sample_row_fits) (simp_all add: fits_varchar_def)
  have "map_sum id state
        (fst (establishmentRouter_create ctx_U sample_env sample_store ?p)) = Inr ''ZZ''"
    using create_inserts [OF protected_ctx_U p sample_env_fresh f]
    by (simp add: new_row_def as_stored_def)
  with a b show ?thesis by simp
qed

lemma create_normalizes_ca:
  "map_sum id state (fst (establishmentRouter_create ctx_U sample_env sample_store sample_input))
     = Inr ''CA''"
proof -
  have p1: "establishmentInputSchema sample_input
         = Inr \<lparr>v_name = ''Plant D'', v_address = ''4 Elm St'', v_city = ''Los Angeles'',
                v_state = ''CA'', v_zipCode = ''90001'', v_naicsCode = None,
                v_industryDescription = Some '''', v_averageEmployees = 25\<rparr>"
    using sample_parse [of "''ca''" "''90001''" None] zip_90001 sample_input_eq toUpperCase_ca
    by simp
  have f1: "fits_columns (new_row sample_env ''user_U''
           \<lparr>v_name = ''Plant D'', v_address = ''4 Elm St'', v_city = ''Los Angeles'',
             v_state = ''CA'', v_zipCode = ''90001'', v_naicsCode = None,
             v_industryDescription = Some '''', v_averageEmployees = 25\<rparr>)"
    by (rule sample_row_fits) (simp_all add: fits_varchar_def)
  show ?thesis
    using create_inserts [OF protected_ctx_U p1 sample_env_fresh f1]
    by (simp add: new_row_def as_stored_def)
qed
lemma updateSchema_bad_id:
  "\<not> isUuid i \<Longrightarrow> updateSchema i d
      = Inl (''id'' # map (\<lambda>p. ''data.'' @ p) (establishmentInputSchema_partial_issues d))"
  by (simp add: updateSchema_def)

lemma updateSchema_Inr:
  "updateSchema i d = Inr v \<Longrightarrow> isUuid i \<and> establishmentInputSchema_partial_issues d = []
      \<and> v = (i, normalize_input d)"
  by (auto simp: updateSchema_def Let_def split: if_splits)

text \<open>
  C9. For an authenticated caller and an identifier that is not in UUID format,
  \<open>getById\<close>, \<open>update\<close> and \<open>delete\<close> answer with a validation error that names
  \<open>id\<close>, whatever the store holds, and leave the store as it is; and whenever one of
  the three answers \<open>NOT_FOUND\<close>, the identifier is in UUID format.
\<close>

theorem malformed_id_is_validation_error:
  "(protectedProcedure c = Inr u \<and> \<not> isUuid i \<longrightarrow>
       establishmentRouter_getById c st i = Inl (BAD_REQUEST [''id''])
     \<and> establishmentRouter_update c now st i d
         = (Inl (BAD_REQUEST (''id'' # map (\<lambda>p. ''data.'' @ p)
                                            (establishmentInputSchema_partial_issues d))), st)
     \<and> establishmentRouter_delete c st i = (Inl (BAD_REQUEST [''id'']), st))
   \<and> (establishmentRouter_getById c st i = Inl NOT_FOUND \<longrightarrow> isUuid i)
   \<and> (fst (establishmentRouter_update c now st i d) = Inl NOT_FOUND \<longrightarrow> isUuid i)
   \<and> (fst (establishmentRouter_delete c st i) = Inl NOT_FOUND \<longrightarrow> isUuid i)"
proof (intro conjI impI)
  assume h: "protectedProcedure c = Inr u \<and> \<not> isUuid i"
  then show "establishmentRouter_getById c st i = Inl (BAD_REQUEST [''id''])"
    by (simp add: establishmentRouter_getById_def idSchema_def)
  from h show "establishmentRouter_update c now st i d
         = (Inl (BAD_REQUEST (''id'' # map (\<lambda>p. ''data.'' @ p)
                                            (establishmentInputSchema_partial_issues d))), st)"
    by (simp add: establishmentRouter_update_def update_interleaved_def update_verify_def
        updateSchema_bad_id)
  from h show "establishmentRouter_delete c st i = (Inl (BAD_REQUEST [''id'']), st)"
    by (simp add: establishmentRouter_delete_def idSchema_def)
next
  assume "establishmentRouter_getById c st i = Inl NOT_FOUND"
  then show "isUuid i"
    by (auto simp: establishmentRouter_getById_def idSchema_def protectedProcedure_def
        split: sum.splits option.splits if_splits list.splits)
next
  assume "fst (establishmentRouter_update c now st i d) = Inl NOT_FOUND"
  then show "isUuid i"
    by (auto simp: establishmentRouter_update_def update_interleaved_def update_verify_def
        protectedProcedure_def dest: updateSchema_Inr
        split: sum.splits option.splits if_splits prod.splits)
next
  assume "fst (establishmentRouter_delete c st i) = Inl NOT_FOUND"
  then show "isUuid i"
    by (auto simp: establishmentRouter_delete_def idSchema_def protectedProcedure_def
        split: sum.splits option.splits if_splits)
qed

lemma not_uuid_sample: "\<not> isUuid ''not-a-uuid''"
  by code_simp

theorem malformed_id_is_validation_error_witness:
  "protectedProcedure ctx_U = Inr ''user_U'' \<and> \<not> isUuid ''not-a-uuid''
   \<and> establishmentRouter_getById ctx_U sample_store ''not-a-uuid'' = Inl (BAD_REQUEST [''id''])
   \<and> establishmentRouter_update ctx_U 400 sample_store ''not-a-uuid'' sample_input
       = (Inl (BAD_REQUEST [''id'']), sample_store)
   \<and> establishmentRouter_delete ctx_U sample_store ''not-a-uuid''
       = (Inl (BAD_REQUEST [''id'']), sample_store)
   \<and> establishmentRouter_getById ctx_U sample_store id_B = Inl NOT_FOUND
   \<and> isUuid id_B"
proof -
  have p: "establishmentInputSchema_partial_issues sample_input = []"
    by (simp add: establishmentInputSchema_partial_issues_def sample_input_def optional_def
      name_check_def address_check_def city_check_def state_check_def zipCode_check_iff
      industryDescription_check_def averageEmployees_check_def isDigit_def)
  have n: "establishmentRouter_getById ctx_U sample_store id_B = Inl NOT_FOUND"
    using uuid_id_B
    by (simp add: establishmentRouter_getById_def protected_ctx_U idSchema_def db_select_owned_def
        value_id_B sample_store_def est_A_def est_B_def est_C_def)
  from malformed_id_is_validation_error
         [of ctx_U "''user_U''" "''not-a-uuid''" sample_store 400 sample_input]
       malformed_id_is_validation_error
         [of ctx_U "''user_U''" id_B sample_store 400 sample_input]
       protected_ctx_U not_uuid_sample p n
  show ?thesis by simp
qed

lemma update_verify_ok:
  assumes "protectedProcedure c = Inr u" and "isUuid i"
    and "establishmentInputSchema_partial_issues d = []"
    and "e \<in> set (establishments st)" and "e_id e = uuid_of_text i" and "userId e = u"
  shows "update_verify c st i d = Inr (i, normalize_input d)"
proof -
  have "db_select_owned st (uuid_of_text i) u \<noteq> []"
    using assms(4-6) by (auto simp: select_owned_empty)
  then show ?thesis
    using assms(1-3) by (simp add: update_verify_def updateSchema_def)
qed

lemma set_fields_keeps_key: "e_id (set_fields d now e) = e_id e"
  by (simp add: set_fields_def)

lemma as_stored_keeps_key: "e_id (as_stored e) = e_id e"
  by (simp add: as_stored_def)

text \<open>The three mutations keep the identifiers of \<open>establishments\<close> distinct.\<close>

lemma primary_key_preserved:
  assumes "distinct (map e_id (establishments st))"
  shows "distinct (map e_id (establishments (snd (establishmentRouter_create c env st inp))))"
    and "distinct (map e_id (establishments (snd (establishmentRouter_update c now st i d))))"
    and "distinct (map e_id (establishments (snd (establishmentRouter_delete c st i))))"
proof -
  show "distinct (map e_id (establishments (snd (establishmentRouter_create c env st inp))))"
    using assms
    by (auto simp: establishmentRouter_create_def db_insert_def as_stored_keeps_key
        split: sum.splits option.splits if_splits list.splits)
  have k: "map e_id (map (\<lambda>e. if e_id e = j then set_fields x now e else e) xs) = map e_id xs"
    for j x xs
    by (induction xs) (simp_all add: set_fields_keeps_key)
  show "distinct (map e_id (establishments (snd (establishmentRouter_update c now st i d))))"
    using assms k
    by (auto simp: establishmentRouter_update_def update_interleaved_def update_write_def
        db_update_def simp del: map_map split: sum.splits prod.splits option.splits if_splits)
  show "distinct (map e_id (establishments (snd (establishmentRouter_delete c st i))))"
    using assms
    by (auto simp: establishmentRouter_delete_def db_delete_def distinct_map_filter
        split: sum.splits if_splits)
qed

text \<open>A write whose values do not fit the columns ends in the internal error and changes nothing.\<close>

lemma update_refused:
  assumes "update_verify c st i d = Inr v" and "\<not> fits_values (snd v)"
  shows "establishmentRouter_update c now st i d
           = (Inl (INTERNAL_SERVER_ERROR ''Failed to update establishment''), st)"
  using assms
  by (simp add: establishmentRouter_update_def update_interleaved_def update_write_def
      db_update_def)

text \<open>What an empty list of issues says about the lengths of the texts of a partial payload.\<close>

lemma partial_issues_Nil_lengths:
  assumes "establishmentInputSchema_partial_issues d = []"
  shows "name_in d = Some x \<Longrightarrow> take 255 x = x"
    and "address_in d = Some x \<Longrightarrow> take 500 x = x"
    and "city_in d = Some x \<Longrightarrow> take 100 x = x"
    and "zipCode_in d = Some x \<Longrightarrow> take 10 x = x"
    and "naicsCode_in d = Some x \<Longrightarrow> take 6 x = x"
    and "industryDescription_in d = Some x \<Longrightarrow> take 500 x = x"
  using assms
  by (auto simp: establishmentInputSchema_partial_issues_def optional_def name_check_def
      address_check_def city_check_def zipCode_check_def naicsCode_check_def naicsCodeRegex_iff
      industryDescription_check_def split: option.splits if_splits)

text \<open>
  C5. For an establishment the caller owns and a partial payload that passes the schema
  and whose values fit the columns, \<open>update\<close> returns the updated row: each descriptive
  field that the payload holds takes the payload's value (the region code in upper case, as
  the schema hands it on, cut to the two characters of its column), every other
  descriptive field keeps its value, as do the identifier, the owner and the creation
  timestamp, and the last-modified timestamp becomes the time of the request. No other row
  and no subscription changes. (The identifiers of the table are distinct: they are its
  primary key. A region code is taken to be a text whose upper-case form is a text of the
  model.)
\<close>

theorem update_applies_present_fields_only:
  assumes "protectedProcedure c = Inr u" and "isUuid i"
    and "establishmentInputSchema_partial_issues d = []"
    and "e \<in> set (establishments st)" and "e_id e = uuid_of_text i" and "userId e = u"
    and "distinct (map e_id (establishments st))"
    and "fits_values (normalize_input d)"
    and "\<forall>x. state_in d = Some x \<longrightarrow> upper_representable x"
  shows "\<exists>e' st'. establishmentRouter_update c now st i d = (Inr (Some e'), st')
     \<and> name e' = (case name_in d of Some x \<Rightarrow> x | None \<Rightarrow> name e)
     \<and> address e' = (case address_in d of Some x \<Rightarrow> x | None \<Rightarrow> address e)
     \<and> city e' = (case city_in d of Some x \<Rightarrow> x | None \<Rightarrow> city e)
     \<and> state e' = (case state_in d of Some x \<Rightarrow> take 2 (toUpperCase x) | None \<Rightarrow> state e)
     \<and> zipCode e' = (case zipCode_in d of Some x \<Rightarrow> x | None \<Rightarrow> zipCode e)
     \<and> naicsCode e' = (case naicsCode_in d of Some x \<Rightarrow> Some x | None \<Rightarrow> naicsCode e)
     \<and> industryDescription e'
         = (case industryDescription_in d of Some x \<Rightarrow> Some x | None \<Rightarrow> industryDescription e)
     \<and> averageEmployees e'
         = (case averageEmployees_in d of Some x \<Rightarrow> x | None \<Rightarrow> averageEmployees e)
     \<and> e_id e' = e_id e \<and> userId e' = userId e \<and> createdAt e' = createdAt e
     \<and> updatedAt e' = now
     \<and> establishments st' = map (\<lambda>x. if x = e then e' else x) (establishments st)
     \<and> subscriptions st' = subscriptions st"
proof -
  define e' where "e' = set_fields (stored_values (normalize_input d)) now e"
  define st' where
    "st' = st\<lparr>establishments := map (\<lambda>x. if x = e then e' else x) (establishments st)\<rparr>"
  have f: "filter (\<lambda>x. e_id x = uuid_of_text i) (establishments st) = [e]"
    using filter_by_key [OF assms(7,4)] assms(5) by simp
  have m: "map (\<lambda>x. if e_id x = uuid_of_text i
                      then set_fields (stored_values (normalize_input d)) now x else x)
               (establishments st)
             = map (\<lambda>x. if x = e then e' else x) (establishments st)"
    using map_by_key [OF assms(7,4), of "set_fields (stored_values (normalize_input d)) now"]
      assms(5)
    by (simp add: e'_def)
  have w: "update_write now st (i, normalize_input d) = Some (Some e', st')"
    using assms(8) by (simp add: update_write_def db_update_def f m e'_def st'_def)
  have r: "establishmentRouter_update c now st i d = (Inr (Some e'), st')"
    using update_verify_ok [OF assms(1-6)] w
    by (simp add: establishmentRouter_update_def update_interleaved_def)
  have fields:
    "name e' = (case name_in d of Some x \<Rightarrow> x | None \<Rightarrow> name e)"
    "address e' = (case address_in d of Some x \<Rightarrow> x | None \<Rightarrow> address e)"
    "city e' = (case city_in d of Some x \<Rightarrow> x | None \<Rightarrow> city e)"
    "state e' = (case state_in d of Some x \<Rightarrow> take 2 (toUpperCase x) | None \<Rightarrow> state e)"
    "zipCode e' = (case zipCode_in d of Some x \<Rightarrow> x | None \<Rightarrow> zipCode e)"
    "naicsCode e' = (case naicsCode_in d of Some x \<Rightarrow> Some x | None \<Rightarrow> naicsCode e)"
    "industryDescription e'
         = (case industryDescription_in d of Some x \<Rightarrow> Some x | None \<Rightarrow> industryDescription e)"
    "averageEmployees e'
         = (case averageEmployees_in d of Some x \<Rightarrow> x | None \<Rightarrow> averageEmployees e)"
    "e_id e' = e_id e" "userId e' = userId e" "createdAt e' = createdAt e"
    "updatedAt e' = now"
    using partial_issues_Nil_lengths [OF assms(3)]
    by (simp_all add: e'_def set_fields_def stored_values_def normalize_input_def
        split: option.splits)
  have s: "establishments st' = map (\<lambda>x. if x = e then e' else x) (establishments st)"
    "subscriptions st' = subscriptions st"
    by (simp_all add: st'_def)
  show ?thesis using r fields s by blast
qed

lemma state_and_employees_valid:
  "establishmentInputSchema_partial_issues state_and_employees = []
   \<and> fits_values (normalize_input state_and_employees)
   \<and> (\<forall>x. state_in state_and_employees = Some x \<longrightarrow> upper_representable x)"
proof -
  have "toUpperCase ''nm'' = ''NM''" by code_simp
  then show ?thesis
    by (simp add: establishmentInputSchema_partial_issues_def state_and_employees_def
        optional_def averageEmployees_check_def state_check_def normalize_input_def
        fits_values_def fits_varchar_def fits_integer_def upper_representable_def)
qed

theorem update_applies_present_fields_only_witness:
  "\<exists>e' st'. establishmentRouter_update ctx_U 400 sample_store id_A state_and_employees
                = (Inr (Some e'), st')
     \<and> name e' = ''Plant A'' \<and> address e' = ''1 Main St'' \<and> city e' = ''Fresno''
     \<and> state e' = ''NM'' \<and> zipCode e' = ''93650'' \<and> naicsCode e' = Some ''332710''
     \<and> industryDescription e' = None \<and> averageEmployees e' = 25
     \<and> e_id e' = e_id est_A \<and> userId e' = ''user_U'' \<and> createdAt e' = 200
     \<and> updatedAt e' = 400
     \<and> establishments st' = [e', est_B, est_C]
     \<and> subscriptions st' = [sub_A, sub_B]"
proof -
  note v = state_and_employees_valid
  have a: "est_A \<in> set (establishments sample_store)" by (simp add: sample_store_def)
  have k: "e_id est_A = uuid_of_text id_A" by (simp add: value_id_A est_A_def)
  have o: "userId est_A = ''user_U''" by (simp add: est_A_def)
  have d: "distinct (map e_id (establishments sample_store))"
    by (simp add: sample_store_def est_A_def est_B_def est_C_def)
  have n: "est_B \<noteq> est_A" "est_C \<noteq> est_A"
    by (simp_all add: est_A_def est_B_def est_C_def)
  have s: "establishments sample_store = [est_A, est_B, est_C]"
    "subscriptions sample_store = [sub_A, sub_B]"
    by (simp_all add: sample_store_def)
  have f: "name est_A = ''Plant A''" "address est_A = ''1 Main St''" "city est_A = ''Fresno''"
    "state est_A = ''CA''" "zipCode est_A = ''93650''" "naicsCode est_A = Some ''332710''"
    "industryDescription est_A = None" "createdAt est_A = 200"
    by (simp_all add: est_A_def)
  have u: "toUpperCase ''nm'' = ''NM''" by code_simp
  from update_applies_present_fields_only
         [OF protected_ctx_U uuid_id_A conjunct1 [OF v] a k o d
             conjunct1 [OF conjunct2 [OF v]] conjunct2 [OF conjunct2 [OF v]], of 400]
  show ?thesis
    unfolding s using n f o u by (simp add: state_and_employees_def)
qed
lemma delete_owned:
  assumes "protectedProcedure c = Inr u" and "isUuid i"
    and "e \<in> set (establishments st)" and "e_id e = uuid_of_text i" and "userId e = u"
  shows "establishmentRouter_delete c st i
           = (Inr \<lparr>success = True\<rparr>, db_delete st (uuid_of_text i))"
proof -
  have "db_select_owned st (uuid_of_text i) u \<noteq> []"
    using assms(3-5) by (auto simp: select_owned_empty)
  then show ?thesis
    using assms(1,2) by (simp add: establishmentRouter_delete_def idSchema_def)
qed

lemma delete_sample:
  "db_delete sample_store (uuid_of_text id_A)
     = \<lparr>establishments = [est_B, est_C], subscriptions = [sub_B]\<rparr>"
  by (simp add: value_id_A db_delete_def sample_store_def est_A_def est_B_def est_C_def
      sub_A_def sub_B_def)

text \<open>
  C6. For an establishment the caller owns, \<open>delete\<close> passes the ownership check and
  answers \<open>{ success: true }\<close>; afterwards the store holds no establishment with the
  identifier and no subscription that refers to it, every other row is still there, and
  \<open>getById\<close> of the same caller for the identifier answers \<open>NOT_FOUND\<close>.
\<close>

theorem delete_removes_row_and_subscriptions:
  assumes "protectedProcedure c = Inr u" and "isUuid i"
    and "e \<in> set (establishments st)" and "e_id e = uuid_of_text i" and "userId e = u"
  shows "\<exists>st'. establishmentRouter_delete c st i = (Inr \<lparr>success = True\<rparr>, st')
     \<and> (\<forall>x \<in> set (establishments st'). e_id x \<noteq> uuid_of_text i)
     \<and> (\<forall>s \<in> set (subscriptions st'). establishmentId s \<noteq> uuid_of_text i)
     \<and> (\<forall>x \<in> set (establishments st). e_id x \<noteq> uuid_of_text i
            \<longrightarrow> x \<in> set (establishments st'))
     \<and> (\<forall>s \<in> set (subscriptions st). establishmentId s \<noteq> uuid_of_text i
            \<longrightarrow> s \<in> set (subscriptions st'))
     \<and> establishmentRouter_getById c st' i = Inl NOT_FOUND"
proof -
  have g: "establishmentRouter_getById c (db_delete st (uuid_of_text i)) i = Inl NOT_FOUND"
    using assms(1,2)
    by (simp add: establishmentRouter_getById_def idSchema_def db_select_owned_def db_delete_def
        filter_empty_conv)
  show ?thesis
    using delete_owned [OF assms] g by (simp add: db_delete_def)
qed

theorem delete_removes_row_and_subscriptions_witness:
  "establishmentRouter_delete ctx_U sample_store id_A
     = (Inr \<lparr>success = True\<rparr>, \<lparr>establishments = [est_B, est_C], subscriptions = [sub_B]\<rparr>)
   \<and> establishmentRouter_getById ctx_U \<lparr>establishments = [est_B, est_C], subscriptions = [sub_B]\<rparr>
        id_A = Inl NOT_FOUND"
proof -
  have a: "est_A \<in> set (establishments sample_store)" by (simp add: sample_store_def)
  have k: "e_id est_A = uuid_of_text id_A" by (simp add: value_id_A est_A_def)
  have o: "userId est_A = ''user_U''" by (simp add: est_A_def)
  from delete_removes_row_and_subscriptions [OF protected_ctx_U uuid_id_A a k o]
  obtain st' where r: "establishmentRouter_delete ctx_U sample_store id_A
        = (Inr \<lparr>success = True\<rparr>, st')"
    and g: "establishmentRouter_getById ctx_U st' id_A = Inl NOT_FOUND"
    by blast
  have "st' = db_delete sample_store (uuid_of_text id_A)"
    using r delete_owned [OF protected_ctx_U uuid_id_A a k o] by simp
  then show ?thesis using r g delete_sample by simp
qed

text \<open>
  C8. When the statement of a \<open>delete\<close> of the establishment reaches the store between
  the ownership check of \<open>update\<close> and its write, the check has passed, the delete
  succeeds, the write of the update (a statement the store takes: its values fit the
  columns) changes no row and returns none (the store after it is the store the delete
  left), and the update still answers without an error, with no row (\<open>result[0]\<close> is
  \<open>undefined\<close>).
\<close>

theorem update_racing_delete_reports_success:
  assumes "protectedProcedure c = Inr u" and "isUuid i"
    and "establishmentInputSchema_partial_issues d = []"
    and "e \<in> set (establishments st)" and "e_id e = uuid_of_text i" and "userId e = u"
    and "fits_values (normalize_input d)"
  shows "\<exists>v st1. update_verify c st i d = Inr v
     \<and> establishmentRouter_delete c st i = (Inr \<lparr>success = True\<rparr>, st1)
     \<and> db_update st1 (uuid_of_text (fst v)) (snd v) now = Some ([], st1)
     \<and> update_write now st1 v = Some (None, st1)
     \<and> update_interleaved (\<lambda>s. snd (establishmentRouter_delete c s i)) c now st i d
         = (Inr None, st1)"
proof -
  define st1 where "st1 = db_delete st (uuid_of_text i)"
  have v: "update_verify c st i d = Inr (i, normalize_input d)"
    by (rule update_verify_ok [OF assms(1-6)])
  have del: "establishmentRouter_delete c st i = (Inr \<lparr>success = True\<rparr>, st1)"
    using delete_owned [OF assms(1,2,4,5,6)] by (simp add: st1_def)
  have none: "filter (\<lambda>x. e_id x = uuid_of_text i) (establishments st1) = []"
    by (simp add: st1_def db_delete_def filter_empty_conv)
  have same: "map (\<lambda>x. if e_id x = uuid_of_text i
                         then set_fields (stored_values (normalize_input d)) now x else x)
                (establishments st1) = establishments st1"
    by (rule map_idI) (simp add: st1_def db_delete_def)
  have u: "db_update st1 (uuid_of_text i) (normalize_input d) now = Some ([], st1)"
    using assms(7) by (simp add: db_update_def none same)
  then have w: "update_write now st1 (i, normalize_input d) = Some (None, st1)"
    by (simp add: update_write_def)
  have "update_interleaved (\<lambda>s. snd (establishmentRouter_delete c s i)) c now st i d
         = (Inr None, st1)"
    using v del w by (simp add: update_interleaved_def)
  then show ?thesis using v del u w by simp
qed

theorem update_racing_delete_reports_success_witness:
  "update_interleaved (\<lambda>s. snd (establishmentRouter_delete ctx_U s id_A))
      ctx_U 400 sample_store id_A only_averageEmployees
     = (Inr None, \<lparr>establishments = [est_B, est_C], subscriptions = [sub_B]\<rparr>)"
proof -
  have v: "establishmentInputSchema_partial_issues only_averageEmployees = []"
    by (simp add: establishmentInputSchema_partial_issues_def only_averageEmployees_def
        optional_def averageEmployees_check_def)
  have fv: "fits_values (normalize_input only_averageEmployees)"
    by (simp add: fits_values_def normalize_input_def only_averageEmployees_def fits_integer_def)
  have a: "est_A \<in> set (establishments sample_store)" by (simp add: sample_store_def)
  have k: "e_id est_A = uuid_of_text id_A" by (simp add: value_id_A est_A_def)
  have o: "userId est_A = ''user_U''" by (simp add: est_A_def)
  from update_racing_delete_reports_success [OF protected_ctx_U uuid_id_A v a k o fv, of 400]
  obtain w st1 where
    del: "establishmentRouter_delete ctx_U sample_store id_A = (Inr \<lparr>success = True\<rparr>, st1)"
    and r: "update_interleaved (\<lambda>s. snd (establishmentRouter_delete ctx_U s id_A))
              ctx_U 400 sample_store id_A only_averageEmployees = (Inr None, st1)"
    by blast
  have "st1 = db_delete sample_store (uuid_of_text id_A)"
    using del delete_owned [OF protected_ctx_U uuid_id_A a k o] by simp
  then show ?thesis using r delete_sample by simp
qed
section \<open>The selection state: printing and parsing a year\<close>

lemma digitChar_code: "k < 10 \<Longrightarrow> (of_char (digitChar k) :: nat) = 48 + k"
  by (simp add: digitChar_def)

lemma digitChar_isDigit: "k < 10 \<Longrightarrow> isDigit (digitChar k)"
  by (simp add: isDigit_def digitChar_code)

lemma digitChar_value: "k < 10 \<Longrightarrow> digitValue (digitChar k) = k"
  by (simp add: digitValue_def digitChar_code)

lemma isDigit_not_space: "isDigit c \<Longrightarrow> \<not> isWhiteSpace c"
  by (auto simp: isDigit_def isWhiteSpace_def)

lemma isDigit_not_sign: "isDigit c \<Longrightarrow> c \<noteq> CHR ''-'' \<and> c \<noteq> CHR ''+''"
  by (auto simp: isDigit_def)

lemma decimal_digits: "\<forall>c \<in> set (decimal n). isDigit c"
proof (induction n rule: decimal.induct)
  case (1 n)
  show ?case
  proof (cases "n < 10")
    case True
    then show ?thesis by (simp add: decimal.simps [of n] digitChar_isDigit)
  next
    case False
    then show ?thesis using 1 by (simp add: decimal.simps [of n] digitChar_isDigit)
  qed
qed

lemma decimal_not_Nil: "decimal n \<noteq> []"
  by (simp add: decimal.simps [of n])

lemma digitsValue_snoc: "digitsValue (ds @ [c]) = 10 * digitsValue ds + digitValue c"
  by (simp add: digitsValue_def)

lemma digitsValue_decimal: "digitsValue (decimal n) = n"
proof (induction n rule: decimal.induct)
  case (1 n)
  show ?case
  proof (cases "n < 10")
    case True
    then show ?thesis by (simp add: decimal.simps [of n] digitsValue_def digitChar_value)
  next
    case False
    then have "digitsValue (decimal n) = 10 * (n div 10) + n mod 10"
      using 1 by (simp add: decimal.simps [of n] digitsValue_snoc digitChar_value)
    then show ?thesis by simp
  qed
qed

lemma parseInt_digits:
  assumes "ds \<noteq> []" and "\<forall>x \<in> set ds. isDigit x"
  shows "parseInt ds = Some (int (digitsValue ds))"
proof (cases ds)
  case Nil
  then show ?thesis using assms(1) by simp
next
  case (Cons c cs)
  then have c: "isDigit c" and cs: "\<forall>x \<in> set cs. isDigit x" using assms(2) by simp_all
  have t: "takeWhile isDigit cs = cs" using cs by (simp add: takeWhile_eq_all_conv)
  show ?thesis
    unfolding parseInt_def Cons
    using isDigit_not_space [OF c] isDigit_not_sign [OF c] c
    by (simp add: Let_def t)
qed

lemma parseInt_decimal: "parseInt (decimal n) = Some (int n)"
  using parseInt_digits [OF decimal_not_Nil decimal_digits, of n]
  by (simp add: digitsValue_decimal)

lemma parseInt_minus_decimal: "parseInt (CHR ''-'' # decimal n) = Some (- int n)"
proof -
  have all: "\<forall>x \<in> set (decimal n). isDigit x" by (rule decimal_digits)
  have t: "takeWhile isDigit (decimal n) = decimal n" using all by (simp add: takeWhile_eq_all_conv)
  have w: "\<not> isWhiteSpace CHR ''-''" by (simp add: isWhiteSpace_def)
  show ?thesis
    unfolding parseInt_def
    using w digitsValue_decimal [of n] decimal_not_Nil [of n]
    by (simp add: Let_def t)
qed

lemma parseInt_numberToString: "parseInt (numberToString y) = Some y"
  by (simp add: numberToString_def parseInt_decimal parseInt_minus_decimal)

lemma numberToString_not_Nil: "numberToString y \<noteq> []"
  by (simp add: numberToString_def decimal_not_Nil)

lemma parseInt_None_iff:
  "parseInt s = None \<longleftrightarrow>
     (let t = dropWhile isWhiteSpace s;
          r = (case t of c # cs \<Rightarrow> if c = CHR ''-'' \<or> c = CHR ''+'' then cs else t | [] \<Rightarrow> t)
      in case r of [] \<Rightarrow> True | c # _ \<Rightarrow> \<not> isDigit c)"
  by (auto simp: parseInt_def Let_def takeWhile_eq_Nil_iff split: list.splits)

text \<open>
  A persisted year that begins with a no-break space is read like one that begins with a
  space: the white space is skipped and the digits are the year.
\<close>

lemma reload_skips_no_break_space:
  "sel_year (reload 2025 [STORAGE_KEYS_YEAR \<mapsto> CHR 0xA0 # ''2026'']) = 2026"
proof -
  have "parseInt (CHR 0xA0 # ''2026'') = Some 2026" by code_simp
  then show ?thesis
    by (simp add: reload_def hydrate_def initial_selection_def Let_def)
qed

text \<open>
  C7. Setting the year to an integer \<open>y\<close> (a safe integer, which \<open>toString\<close> prints
  in plain decimal notation) and then loading the page again from what was persisted
  yields \<open>y\<close>. If a persisted year is there but \<open>parseInt\<close> finds no integer in it,
  the load discards it: the year is the current calendar year, and hydration completes
  without an error.
\<close>

theorem setYear_reload_round_trip:
  "(isSafeInteger y \<longrightarrow>
      sel_year (fst (setYear y (s, ls))) = y
    \<and> sel_year (reload currentYear (snd (setYear y (s, ls)))) = y)
   \<and> (ls STORAGE_KEYS_YEAR = Some saved \<and> parseInt saved = None \<longrightarrow>
        sel_year (reload currentYear ls) = currentYear \<and> isHydrated (reload currentYear ls))"
proof (intro conjI impI)
  show "sel_year (fst (setYear y (s, ls))) = y" by (simp add: setYear_def)
  show "sel_year (reload currentYear (snd (setYear y (s, ls)))) = y"
    by (simp add: setYear_def reload_def hydrate_def initial_selection_def Let_def
        parseInt_numberToString numberToString_not_Nil split: option.splits)
next
  assume "ls STORAGE_KEYS_YEAR = Some saved \<and> parseInt saved = None"
  then show "sel_year (reload currentYear ls) = currentYear"
    by (simp add: reload_def hydrate_def initial_selection_def Let_def split: option.splits)
next
  show "isHydrated (reload currentYear ls)"
    by (simp add: reload_def hydrate_def Let_def)
qed

theorem setYear_reload_round_trip_witness:
  "isSafeInteger 2026
   \<and> sel_year (reload 2025 (snd (setYear 2026 (initial_selection 2025, Map.empty)))) = 2026
   \<and> [STORAGE_KEYS_YEAR \<mapsto> ''abc''] STORAGE_KEYS_YEAR = Some ''abc'' \<and> parseInt ''abc'' = None
   \<and> sel_year (reload 2025 [STORAGE_KEYS_YEAR \<mapsto> ''abc'']) = 2025
   \<and> isHydrated (reload 2025 [STORAGE_KEYS_YEAR \<mapsto> ''abc''])"
proof -
  have a: "isSafeInteger 2026" by (simp add: isSafeInteger_def)
  have b: "parseInt ''abc'' = None" by code_simp
  from setYear_reload_round_trip [of 2026 "initial_selection 2025" Map.empty 2025 "''abc''"]
       setYear_reload_round_trip [of 2026 "initial_selection 2025" "[STORAGE_KEYS_YEAR \<mapsto> ''abc'']" 2025 "''abc''"]
       a b
  show ?thesis by simp
qed
end
